theory Spec2Isabelle
  imports Complex_Main
begin

section \<open>JavaScript values\<close>

text \<open>
  A JavaScript string is a sequence of UTF-16 code units; each code unit is a natural
  number.  \<open>ascii\<close> embeds an ASCII literal.
\<close>

type_synonym ustring = "nat list"

definition ascii :: "string \<Rightarrow> ustring" where
  "ascii s = map of_char s"

text \<open>
  The values a stored field can hold: what \<open>JSON.parse\<close> produces, plus \<open>undefined\<close>
  for a property that is absent.  \<open>JNum n\<close> is the integer-valued Number \<open>n\<close>, for \<open>n\<close>
  in the safe range (of magnitude below \<open>2^53\<close>), where ToString writes plain decimal
  digits; fractions, infinities, \<open>NaN\<close> and larger integers are outside the model.
\<close>

datatype jsval =
    JUndefined
  | JNull
  | JBool bool
  | JNum int
  | JStr ustring
  | JArr "jsval list"
  | JObj "(ustring \<times> jsval) list"

text \<open>A Number that is an integer or \<open>NaN\<close>: the result type of \<open>parseInt\<close>.\<close>

datatype jsnum = NaN | Num int

text \<open>ToBoolean, as used by \<open>!x\<close>, \<open>x || y\<close> and \<open>c ? a : b\<close>.\<close>

fun truthy :: "jsval \<Rightarrow> bool" where
  "truthy JUndefined = False"
| "truthy JNull = False"
| "truthy (JBool b) = b"
| "truthy (JNum n) = (n \<noteq> 0)"
| "truthy (JStr s) = (s \<noteq> [])"
| "truthy (JArr xs) = True"
| "truthy (JObj ps) = True"

text \<open>\<open>x || d\<close> for a Number \<open>x\<close> and an integer literal \<open>d\<close>: \<open>NaN\<close> and \<open>0\<close> are falsy.\<close>

fun orElse :: "jsnum \<Rightarrow> int \<Rightarrow> int" where
  "orElse NaN d = d"
| "orElse (Num n) d = (if n = 0 then d else n)"

text \<open>
  White space as \<open>String.prototype.trim\<close>, the regular expression class \<open>\s\<close> and
  \<open>parseInt\<close> understand it: TAB, LF, VT, FF, CR, SP, NBSP, U+1680, U+2000..U+200A,
  U+2028, U+2029, U+202F, U+205F, U+3000 and U+FEFF.
\<close>

definition isSpace :: "nat \<Rightarrow> bool" where
  "isSpace c = (c \<in> {9, 10, 11, 12, 13, 32, 160, 5760, 8232, 8233, 8239, 8287, 12288, 65279}
     \<or> (8192 \<le> c \<and> c \<le> 8202))"

definition trim :: "ustring \<Rightarrow> ustring" where
  "trim s = rev (dropWhile isSpace (rev (dropWhile isSpace s)))"

definition isDigit :: "nat \<Rightarrow> bool" where
  "isDigit c = (48 \<le> c \<and> c \<le> 57)"

fun joinWith :: "ustring \<Rightarrow> ustring list \<Rightarrow> ustring" where
  "joinWith sep [] = []"
| "joinWith sep [x] = x"
| "joinWith sep (x # y # ys) = x @ sep @ joinWith sep (y # ys)"

text \<open>Number-to-string for integers: decimal digits, with a leading minus sign.\<close>

fun digitsOf :: "nat \<Rightarrow> ustring" where
  "digitsOf n = (if n < 10 then [48 + n] else digitsOf (n div 10) @ [48 + n mod 10])"

declare digitsOf.simps [simp del]

definition numToString :: "int \<Rightarrow> ustring" where
  "numToString n = (if n < 0 then 45 # digitsOf (nat (- n)) else digitsOf (nat n))"

text \<open>
  ToString.  An array joins the strings of its elements with a comma, \<open>null\<close> and
  \<open>undefined\<close> elements giving the empty string; a plain object gives
  \<open>[object Object]\<close>.
\<close>

fun toString :: "jsval \<Rightarrow> ustring" where
  "toString JUndefined = ascii ''undefined''"
| "toString JNull = ascii ''null''"
| "toString (JBool b) = (if b then ascii ''true'' else ascii ''false'')"
| "toString (JNum n) = numToString n"
| "toString (JStr s) = s"
| "toString (JArr xs) =
     joinWith [44] (map (\<lambda>x. if x = JUndefined \<or> x = JNull then [] else toString x) xs)"
| "toString (JObj ps) = ascii ''[object Object]''"

text \<open>
  \<open>parseInt(s, 10)\<close> on a string: skip leading white space, read an optional sign, then
  the longest run of decimal digits; no digit gives \<open>NaN\<close>.  Radix 10 is given, so a
  \<open>0x\<close> prefix is not recognised.
\<close>

definition digitsValue :: "ustring \<Rightarrow> int" where
  "digitsValue ds = foldl (\<lambda>a d. 10 * a + (int d - 48)) 0 ds"

definition parseIntStr :: "ustring \<Rightarrow> jsnum" where
  "parseIntStr s =
     (let s1 = dropWhile isSpace s;
          neg = (s1 \<noteq> [] \<and> hd s1 = 45);
          s2 = (if s1 \<noteq> [] \<and> (hd s1 = 43 \<or> hd s1 = 45) then tl s1 else s1);
          ds = takeWhile isDigit s2
      in if ds = [] then NaN
         else Num (if neg then - digitsValue ds else digitsValue ds))"

text \<open>\<open>parseInt(v, 10)\<close> on any value: ToString first.\<close>

definition parseInt :: "jsval \<Rightarrow> jsnum" where
  "parseInt v = parseIntStr (toString v)"

text \<open>The expression \<open>parseInt(v, 10) || 1\<close>, which the renderers apply to every score.\<close>

definition intOr1 :: "jsval \<Rightarrow> int" where
  "intOr1 v = orElse (parseInt v) 1"

text \<open>
  Identifiers are strings (\<open>uid()\<close> makes them); \<open>None\<close> is an absent property.
  \<open>missingId i\<close> is the test \<open>!item.id\<close>.
\<close>

definition missingId :: "ustring option \<Rightarrow> bool" where
  "missingId i = (case i of None \<Rightarrow> True | Some s \<Rightarrow> s = [])"

section \<open>Atelier 2: SROV couples\<close>

text \<open>
  \<open>pertinenceBucket\<close>, declared with the same body in \<open>renderSROV\<close> and in
  \<open>updateAtelier2Chart\<close>.
\<close>

definition pertinenceBucket :: "int \<Rightarrow> int" where
  "pertinenceBucket p = (if p \<ge> 13 then 4 else if p \<ge> 9 then 3 else if p \<ge> 5 then 2 else 1)"

record srov_item =
  srov_id :: "ustring option"
  source :: ustring
  objectif :: ustring
  motivation :: jsval
  ressources :: jsval
  priorite :: jsval
  retenue :: jsval
  justification :: ustring

text \<open>
  The normalisation at the head of the \<open>forEach\<close> body of \<open>renderSROV\<close>.  \<open>u\<close> is the
  string \<open>uid()\<close> returns when it is called.
\<close>

definition normSrov :: "ustring \<Rightarrow> srov_item \<Rightarrow> srov_item" where
  "normSrov u item =
     item\<lparr> srov_id := (if missingId (srov_id item) then Some u else srov_id item),
           motivation := JNum (intOr1 (motivation item)),
           ressources := JNum (intOr1 (ressources item)),
           priorite := JNum (intOr1 (priorite item)),
           retenue := (case retenue item of JBool b \<Rightarrow> JBool b | _ \<Rightarrow> JBool True) \<rparr>"

text \<open>
  \<open>setPertinence\<close> (and \<open>updatePertinenceCell\<close>, which has the same body): the product and
  its bucket, as written into the table cell.  It reads \<open>item.motivation\<close> and
  \<open>item.ressources\<close>, which hold Numbers at every call: the results of \<open>parseInt\<close>.
\<close>

definition setPertinence :: "jsnum \<Rightarrow> jsnum \<Rightarrow> int \<times> int" where
  "setPertinence m r = (let p = orElse m 1 * orElse r 1; bucket = pertinenceBucket p in (p, bucket))"

text \<open>The Number held by a normalised field.\<close>

fun numField :: "jsval \<Rightarrow> jsnum" where
  "numField (JNum n) = Num n"
| "numField _ = NaN"

text \<open>One table row of \<open>renderSROV\<close>: the normalised item and its pertinence cell.\<close>

definition renderSROVRow :: "ustring \<Rightarrow> srov_item \<Rightarrow> srov_item \<times> (int \<times> int)" where
  "renderSROVRow u item =
     (let item' = normSrov u item
      in (item', setPertinence (numField (motivation item')) (numField (ressources item'))))"

text \<open>
  One edge of \<open>updateAtelier2Chart\<close>, computed from the stored item: source and objective
  names, then \<open>m\<close>, \<open>r\<close>, \<open>p\<close> and the bucket that colours and labels the edge, and
  whether the couple is retained.
\<close>

record srov_edge =
  e_source :: ustring
  e_objectif :: ustring
  e_m :: int
  e_r :: int
  e_p :: int
  e_bucket :: int
  e_retenue :: bool

definition nameOr :: "ustring \<Rightarrow> ustring \<Rightarrow> ustring" where
  "nameOr s d = (if trim s \<noteq> [] then trim s else d)"

definition atelier2Edge :: "srov_item \<Rightarrow> srov_edge" where
  "atelier2Edge item =
     (let sName = nameOr (source item) (ascii ''Source'');
          oName = nameOr (objectif item) (ascii ''Objectif'');
          m = intOr1 (motivation item);
          r = intOr1 (ressources item);
          p = m * r;
          bucket = pertinenceBucket p
      in \<lparr> e_source = sName, e_objectif = oName, e_m = m, e_r = r, e_p = p,
           e_bucket = bucket,
           e_retenue = (case retenue item of JBool b \<Rightarrow> b | _ \<Rightarrow> True) \<rparr>)"

text \<open>
  Every couple has its edge: the two names of a couple are among the sources and the
  objectives placed before the edges are drawn.
\<close>

definition atelier2Edges :: "srov_item list \<Rightarrow> srov_edge list" where
  "atelier2Edges srov = map atelier2Edge srov"

text \<open>
  The couple of the spec's scenario: motivation 3 (stored as the string \<open>"3"\<close>, as a
  legacy document may hold it) and ressources 3.
\<close>

definition srov_example :: srov_item where
  "srov_example = \<lparr> srov_id = None, source = ascii ''Concurrent'', objectif = ascii ''Vol'',
     motivation = JStr (ascii ''3''), ressources = JNum 3, priorite = JUndefined,
     retenue = JUndefined, justification = [] \<rparr>"

text \<open>A couple whose stored motivation lies outside the scale.\<close>

definition srov_unclamped :: srov_item where
  "srov_unclamped = \<lparr> srov_id = Some (ascii ''id-2''), source = ascii ''Etat'',
     objectif = ascii ''Espionnage'', motivation = JNum 7, ressources = JNum 2,
     priorite = JNum 1, retenue = JBool True, justification = [] \<rparr>"

text \<open>A score on the scale: an integer from 1 to 4.\<close>

fun inScale :: "jsval \<Rightarrow> bool" where
  "inScale (JNum n) = (1 \<le> n \<and> n \<le> 4)"
| "inScale _ = False"

section \<open>Atelier 3: stakeholder cartography\<close>

record ppc_item =
  ppc_id :: "ustring option"
  nom :: ustring
  categorie :: ustring
  supportIds :: "ustring list"
  valueIds :: "ustring list"
  dependance :: jsval
  penetration :: jsval
  maturite :: jsval
  confiance :: jsval

text \<open>The normalisation at the head of the \<open>forEach\<close> body of \<open>renderPPCarto\<close>.\<close>

definition normPPC :: "ustring \<Rightarrow> ppc_item \<Rightarrow> ppc_item" where
  "normPPC u item =
     item\<lparr> ppc_id := (if missingId (ppc_id item) then Some u else ppc_id item),
           categorie := (if categorie item \<noteq> [] then categorie item else ascii ''prestataire''),
           dependance := JNum (intOr1 (dependance item)),
           penetration := JNum (intOr1 (penetration item)),
           maturite := JNum (intOr1 (maturite item)),
           confiance := JNum (intOr1 (confiance item)) \<rparr>"

definition pertinenceBucketForExpo :: "int \<Rightarrow> int" where
  "pertinenceBucketForExpo p =
     (if p \<ge> 13 then 4 else if p \<ge> 9 then 3 else if p \<ge> 5 then 2 else 1)"

text \<open>
  \<open>updateDerivedCells\<close>: exposition, niveau SSI and indice of one entry, with the levels
  that colour the three cells.  The entry's four scores hold Numbers at every call (results
  of \<open>parseInt\<close>).  The quotient is the exact rational; its rounding to a double and the
  two decimals of \<open>toFixed(2)\<close> belong to the display.
\<close>

record derived_cells =
  expo :: int
  niveau :: int
  indice :: rat
  expoBucket :: int
  niveauBucket :: int
  indLvl :: int

definition updateDerivedCells :: "jsnum \<Rightarrow> jsnum \<Rightarrow> jsnum \<Rightarrow> jsnum \<Rightarrow> derived_cells" where
  "updateDerivedCells d p m c =
     (let expo = orElse d 1 * orElse p 1;
          niveau = orElse m 1 * orElse c 1;
          indice = (if niveau \<noteq> 0 then of_int expo / of_int niveau else 0)
      in \<lparr> expo = expo, niveau = niveau, indice = indice,
           expoBucket = pertinenceBucketForExpo expo,
           niveauBucket = pertinenceBucketForExpo niveau,
           indLvl = (if indice \<ge> 4 then 4 else if indice \<ge> 3 then 3
                     else if indice \<ge> 2 then 2 else 1) \<rparr>)"

text \<open>One table row of \<open>renderPPCarto\<close>: the normalised entry and its derived cells.\<close>

definition renderPPCartoRow :: "ustring \<Rightarrow> ppc_item \<Rightarrow> ppc_item \<times> derived_cells" where
  "renderPPCartoRow u item =
     (let item' = normPPC u item
      in (item', updateDerivedCells (numField (dependance item')) (numField (penetration item'))
                   (numField (maturite item')) (numField (confiance item'))))"

text \<open>The stakeholder of the spec's scenario: scores 4, 4, 1, 1.\<close>

definition ppc_example :: ppc_item where
  "ppc_example = \<lparr> ppc_id = Some (ascii ''id-7''), nom = ascii ''Hebergeur'',
     categorie = ascii ''prestataire'', supportIds = [], valueIds = [],
     dependance = JNum 4, penetration = JNum 4, maturite = JNum 1, confiance = JNum 1 \<rparr>"

text \<open>
  A stakeholder whose stored maturite is -1, as an imported document may hold it; and the
  test that a score is an integer of at least 1.
\<close>

definition ppc_negative :: ppc_item where
  "ppc_negative = \<lparr> ppc_id = Some (ascii ''id-8''), nom = ascii ''Infogerant'',
     categorie = ascii ''prestataire'', supportIds = [], valueIds = [],
     dependance = JNum 4, penetration = JNum 4, maturite = JNum (- 1), confiance = JNum 1 \<rparr>"

fun atLeastOne :: "jsval \<Rightarrow> bool" where
  "atLeastOne (JNum n) = (1 \<le> n)"
| "atLeastOne _ = False"

section \<open>Atelier 1: feared events\<close>

record event =
  ev_id :: "ustring option"
  missionId :: "ustring option"
  evenement :: ustring
  impactDescription :: ustring
  impact :: jsval

fun isNumber :: "jsval \<Rightarrow> bool" where
  "isNumber (JNum n) = True"
| "isNumber _ = False"

text \<open>
  The impact normalisation of \<open>renderEventsTable\<close>: when the impact is falsy or not a
  Number it is parsed, and kept only if it lies between 1 and 4.  \<open>renderEventsTable\<close> is
  called from one place only, the delete handler of its own rows, so no page runs it: the
  events are drawn by \<open>renderMissionsTable\<close>, which leaves the stored impact as it is.
\<close>

definition normImpact :: "jsval \<Rightarrow> jsval" where
  "normImpact imp =
     (if \<not> truthy imp \<or> \<not> isNumber imp
      then (case parseInt imp of
              NaN \<Rightarrow> JNum 1
            | Num parsed \<Rightarrow> if parsed \<ge> 1 \<and> parsed \<le> 4 then JNum parsed else JNum 1)
      else imp)"

definition normEvent :: "ustring \<Rightarrow> event \<Rightarrow> event" where
  "normEvent u ev =
     ev\<lparr> ev_id := (if missingId (ev_id ev) then Some u else ev_id ev),
         impact := normImpact (impact ev) \<rparr>"

section \<open>Atelier 1: missions, supports and the network view\<close>

record support =
  s_name :: ustring
  s_description :: ustring
  s_responsable :: ustring

record mission =
  m_id :: "ustring option"
  denom :: ustring
  nature :: ustring
  m_description :: ustring
  m_responsable :: ustring
  supports :: "support list"

text \<open>
  \<open>updateAtelier1Graph\<close>, first loop: the \<open>Map\<close> from mission id to the largest impact of
  its events.  The key is \<open>ev.missionId\<close> as it is, \<open>undefined\<close> included.
\<close>

definition impactStep ::
  "event \<Rightarrow> (ustring option \<rightharpoonup> int) \<Rightarrow> (ustring option \<rightharpoonup> int)" where
  "impactStep ev impactByMission =
     (let mid = missionId ev;
          imp = orElse (parseInt (impact ev)) 0
      in case impactByMission mid of
           None \<Rightarrow> impactByMission(mid \<mapsto> imp)
         | Some old \<Rightarrow> if imp > old then impactByMission(mid \<mapsto> imp) else impactByMission)"

definition impactByMission :: "event list \<Rightarrow> (ustring option \<rightharpoonup> int)" where
  "impactByMission events = fold impactStep events Map.empty"

text \<open>\<open>impactByMission.get(m.id) || 0\<close>.\<close>

definition missionImpact :: "(ustring option \<rightharpoonup> int) \<Rightarrow> ustring option \<Rightarrow> int" where
  "missionImpact impacts mid =
     (case impacts mid of None \<Rightarrow> 0 | Some v \<Rightarrow> if v \<noteq> 0 then v else 0)"

text \<open>
  Second loop: the \<open>Map\<close> from support name to its statistics.  \<open>statStep\<close> is the body of
  the inner \<open>forEach\<close>, run once for every support entry of a mission.
\<close>

record stat =
  degree :: nat
  maxImpact :: int

definition statStep :: "int \<Rightarrow> support \<Rightarrow> (ustring \<rightharpoonup> stat) \<Rightarrow> (ustring \<rightharpoonup> stat)" where
  "statStep mImp s supportStats =
     (let name = trim (s_name s)
      in if name = [] then supportStats
         else (let st = (case supportStats name of
                           None \<Rightarrow> \<lparr> degree = 0, maxImpact = 0 \<rparr>
                         | Some st0 \<Rightarrow> st0);
                   st1 = st\<lparr> degree := degree st + 1 \<rparr>;
                   st2 = (if mImp > maxImpact st1 then st1\<lparr> maxImpact := mImp \<rparr> else st1)
               in supportStats(name \<mapsto> st2)))"

definition supportStats :: "mission list \<Rightarrow> event list \<Rightarrow> (ustring \<rightharpoonup> stat)" where
  "supportStats missions events =
     fold (\<lambda>m acc. fold (statStep (missionImpact (impactByMission events) (m_id m))) (supports m) acc)
       missions Map.empty"

text \<open>
  The quantities the statistics are compared with.  \<open>impactsOf mid events\<close> lists the
  impacts of the events of mission \<open>mid\<close>; \<open>maxImpactOf\<close> is their maximum, 0 when there is
  none.  \<open>links name missions\<close> holds a mission once for each of its support entries named
  \<open>name\<close>; \<open>references name m\<close> says that mission \<open>m\<close> has such an entry.
\<close>

definition impactsOf :: "ustring option \<Rightarrow> event list \<Rightarrow> int list" where
  "impactsOf mid events =
     map (\<lambda>ev. orElse (parseInt (impact ev)) 0) (filter (\<lambda>ev. missionId ev = mid) events)"

definition maxImpactOf :: "ustring option \<Rightarrow> event list \<Rightarrow> int" where
  "maxImpactOf mid events =
     (if impactsOf mid events = [] then 0 else Max (set (impactsOf mid events)))"

definition links :: "ustring \<Rightarrow> mission list \<Rightarrow> mission list" where
  "links name missions =
     concat (map (\<lambda>m. map (\<lambda>s. m) (filter (\<lambda>s. trim (s_name s) = name) (supports m))) missions)"

definition references :: "ustring \<Rightarrow> mission \<Rightarrow> bool" where
  "references name m = (name \<in> set (map (\<lambda>s. trim (s_name s)) (supports m)))"

text \<open>Accumulators that retrace the two loops on a single key.\<close>

fun maxAcc :: "int option \<Rightarrow> int list \<Rightarrow> int option" where
  "maxAcc a [] = a"
| "maxAcc None (x # xs) = maxAcc (Some x) xs"
| "maxAcc (Some v) (x # xs) = maxAcc (Some (max v x)) xs"

definition bump :: "stat option \<Rightarrow> int \<Rightarrow> stat" where
  "bump a x = (case a of None \<Rightarrow> \<lparr> degree = 1, maxImpact = max 0 x \<rparr>
     | Some st \<Rightarrow> \<lparr> degree = degree st + 1, maxImpact = max (maxImpact st) x \<rparr>)"

fun statAcc :: "stat option \<Rightarrow> int list \<Rightarrow> stat option" where
  "statAcc a [] = a"
| "statAcc a (x # xs) = statAcc (Some (bump a x)) xs"

text \<open>
  The scenario of the spec: mission M1 with support S1 and event E1 of impact 3; and a
  mission that lists the support S1 twice.
\<close>

definition support_S1 :: support where
  "support_S1 = \<lparr> s_name = ascii ''S1'', s_description = [], s_responsable = [] \<rparr>"

definition mission_M1 :: mission where
  "mission_M1 = \<lparr> m_id = Some (ascii ''M1''), denom = ascii ''M1'', nature = ascii ''information'',
     m_description = [], m_responsable = [], supports = [support_S1] \<rparr>"

definition event_E1 :: event where
  "event_E1 = \<lparr> ev_id = Some (ascii ''E1''), missionId = Some (ascii ''M1''),
     evenement = ascii ''E1'', impactDescription = [], impact = JNum 3 \<rparr>"

definition mission_twice :: mission where
  "mission_twice = \<lparr> m_id = Some (ascii ''M2''), denom = ascii ''M2'',
     nature = ascii ''processus'', m_description = [], m_responsable = [],
     supports = [support_S1, support_S1] \<rparr>"

section \<open>GAP analysis: the action import list\<close>

text \<open>
  A requirement.  Its text fields hold whatever the bulk import found in the document, so
  they are values, not strings.
\<close>

record gap_req =
  g_id :: "ustring option"
  domaine :: jsval
  titre :: jsval
  g_description :: jsval
  application :: jsval
  justification :: jsval

text \<open>
  The Unicode operations of the filter, \<open>toLowerCase\<close> and \<open>normalize('NFD')\<close>, are given
  for strings of code units from U+0000 to U+00FF, Basic Latin and Latin-1 Supplement: on
  such a string both act code unit by code unit, as written here.  On a code unit above
  U+00FF the two functions below are the identity, which is not what JavaScript does
  (U+0100 lower-cases to U+0101, which decomposes into a and a macron): the properties
  proved of the filter are stated for strings within U+0000 to U+00FF only.  The property
  \<open>\p{Diacritic}\<close> is given up to U+036F, so that it covers the combining marks that the
  decomposition of a Latin-1 letter produces.
\<close>

definition lowerUnit :: "nat \<Rightarrow> nat" where
  "lowerUnit c =
     (if (65 \<le> c \<and> c \<le> 90) \<or> (192 \<le> c \<and> c \<le> 214) \<or> (216 \<le> c \<and> c \<le> 222)
      then c + 32 else c)"

definition toLowerCase :: "ustring \<Rightarrow> ustring" where
  "toLowerCase s = map lowerUnit s"

definition latin1Decomp :: "(nat \<times> ustring) list" where
  "latin1Decomp =
     [(192, [65, 768]), (193, [65, 769]), (194, [65, 770]), (195, [65, 771]), (196, [65, 776]),
      (197, [65, 778]), (199, [67, 807]), (200, [69, 768]), (201, [69, 769]), (202, [69, 770]),
      (203, [69, 776]), (204, [73, 768]), (205, [73, 769]), (206, [73, 770]), (207, [73, 776]),
      (209, [78, 771]), (210, [79, 768]), (211, [79, 769]), (212, [79, 770]), (213, [79, 771]),
      (214, [79, 776]), (217, [85, 768]), (218, [85, 769]), (219, [85, 770]), (220, [85, 776]),
      (221, [89, 769]), (224, [97, 768]), (225, [97, 769]), (226, [97, 770]), (227, [97, 771]),
      (228, [97, 776]), (229, [97, 778]), (231, [99, 807]), (232, [101, 768]), (233, [101, 769]),
      (234, [101, 770]), (235, [101, 776]), (236, [105, 768]), (237, [105, 769]),
      (238, [105, 770]), (239, [105, 776]), (241, [110, 771]), (242, [111, 768]),
      (243, [111, 769]), (244, [111, 770]), (245, [111, 771]), (246, [111, 776]),
      (249, [117, 768]), (250, [117, 769]), (251, [117, 770]), (252, [117, 776]),
      (253, [121, 769]), (255, [121, 776])]"

definition nfdUnit :: "nat \<Rightarrow> ustring" where
  "nfdUnit c = (case map_of latin1Decomp c of Some d \<Rightarrow> d | None \<Rightarrow> [c])"

definition normalizeNFD :: "ustring \<Rightarrow> ustring" where
  "normalizeNFD s = concat (map nfdUnit s)"

definition isDiacritic :: "nat \<Rightarrow> bool" where
  "isDiacritic c = (c \<in> {94, 96, 168, 175, 180, 183, 184}
     \<or> (688 \<le> c \<and> c \<le> 846) \<or> (848 \<le> c \<and> c \<le> 855) \<or> (861 \<le> c \<and> c \<le> 866))"

definition startsWith :: "ustring \<Rightarrow> ustring \<Rightarrow> bool" where
  "startsWith s p = (take (length p) s = p)"

text \<open>
  The string tested by the filter of \<open>openImportModal\<close>: lower case, decomposed, diacritics
  removed, white space removed.  The \<open>try\<close> around the decomposition is taken to succeed,
  as it does wherever \<open>normalize\<close> and \<open>\p{Diacritic}\<close> exist.
\<close>

definition applicationPrefix :: "ustring \<Rightarrow> ustring" where
  "applicationPrefix a =
     (let app = toLowerCase a;
          app' = filter (\<lambda>c. \<not> isDiacritic c) (normalizeNFD app);
          prefix = filter (\<lambda>c. \<not> isSpace c) app'
      in prefix)"

text \<open>\<open>v || ''\<close>.\<close>

definition orEmpty :: "jsval \<Rightarrow> jsval" where
  "orEmpty v = (if truthy v then v else JStr [])"

record import_item =
  i_id :: ustring
  i_label :: ustring
  i_desc :: jsval
  i_extra :: jsval

definition labelOf :: "gap_req \<Rightarrow> ustring" where
  "labelOf req = joinWith [32, 8211, 32] (map toString (filter truthy [domaine req, titre req]))"

text \<open>
  The body of the \<open>forEach\<close> of the GAP branch, for one requirement; \<open>u\<close> is what \<open>uid()\<close>
  returns if it is called.  \<open>None\<close>: a TypeError, \<open>toLowerCase\<close> being called on a value that
  is not a string.  \<open>Some None\<close>: the requirement is skipped.  The id written back into a
  requirement that had none is not part of the result.
\<close>

definition gapItem :: "ustring \<Rightarrow> gap_req \<Rightarrow> import_item option option" where
  "gapItem u req =
     (case orEmpty (application req) of
        JStr a \<Rightarrow>
          if startsWith (applicationPrefix a) (ascii ''applique'') then Some None
          else Some (Some \<lparr> i_id = (case g_id req of None \<Rightarrow> u | Some i \<Rightarrow> if i \<noteq> [] then i else u),
                             i_label = labelOf req,
                             i_desc = orEmpty (g_description req),
                             i_extra = orEmpty (application req) \<rparr>)
      | _ \<Rightarrow> None)"

fun gapItems :: "(nat \<Rightarrow> ustring) \<Rightarrow> nat \<Rightarrow> gap_req list \<Rightarrow> import_item list option" where
  "gapItems us i [] = Some []"
| "gapItems us i (req # reqs) =
     (case gapItem (us i) req of
        None \<Rightarrow> None
      | Some it \<Rightarrow>
          (case gapItems us (Suc i) reqs of
             None \<Rightarrow> None
           | Some items \<Rightarrow> Some (case it of None \<Rightarrow> items | Some x \<Rightarrow> x # items)))"

text \<open>The candidate list of \<open>openImportModal('gap')\<close>; \<open>us\<close> supplies the results of \<open>uid()\<close>.\<close>

definition openImportModalGap :: "(nat \<Rightarrow> ustring) \<Rightarrow> gap_req list \<Rightarrow> import_item list option" where
  "openImportModalGap us gap = gapItems us 0 gap"

text \<open>The requirement stays in the list: its application is a string that passes the filter.\<close>

definition included :: "gap_req \<Rightarrow> bool" where
  "included req =
     (case orEmpty (application req) of
        JStr a \<Rightarrow> \<not> startsWith (applicationPrefix a) (ascii ''applique'')
      | _ \<Rightarrow> False)"

fun isString :: "jsval \<Rightarrow> bool" where
  "isString (JStr s) = True"
| "isString _ = False"

text \<open>The four statuses of a requirement; 233 is the code unit of e with acute accent.\<close>

definition st_applique :: ustring where
  "st_applique = ascii ''Appliqu'' @ [233]"

definition st_partiel :: ustring where
  "st_partiel = ascii ''Partiellement appliqu'' @ [233]"

definition st_non_applique :: ustring where
  "st_non_applique = ascii ''Non appliqu'' @ [233]"

definition st_non_applicable :: ustring where
  "st_non_applicable = ascii ''Non applicable''"

definition req_with :: "ustring \<Rightarrow> ustring \<Rightarrow> gap_req" where
  "req_with i a = \<lparr> g_id = Some i, domaine = JStr (ascii ''Acces''), titre = JStr (ascii ''MFA''),
     g_description = JStr [], application = JStr a, justification = JStr [] \<rparr>"

text \<open>
  What the filter makes of one code unit: lower case, decomposition, then the diacritics
  and the white space removed.
\<close>

definition codeUnit :: "nat \<Rightarrow> ustring" where
  "codeUnit c =
     filter (\<lambda>c. \<not> isSpace c) (filter (\<lambda>c. \<not> isDiacritic c) (nfdUnit (lowerUnit c)))"

text \<open>The value is a string whose code units all lie in U+0000 to U+00FF.\<close>

fun latin1Text :: "jsval \<Rightarrow> bool" where
  "latin1Text (JStr a) = list_all (\<lambda>c. c < 256) a"
| "latin1Text _ = False"

text \<open>
  The normalisation as the specification words it, written character by character for
  U+0000 to U+00FF and without reference to the three operations above: \<^emph>\<open>lowercased\<close>
  and \<^emph>\<open>diacritics stripped\<close>, a letter becomes its lower-case base letter (the letters
  AE, ETH, O with stroke and THORN have no base letter and are only lower-cased);
  \<^emph>\<open>diacritics stripped\<close> and \<^emph>\<open>whitespace removed\<close>, the free-standing diacritics
  (circumflex, grave, diaeresis, macron, acute, middle dot, cedilla) and the white space
  (tab to carriage return, space, no-break space) disappear; any other character stays.
\<close>

definition spec_letter :: "nat \<Rightarrow> nat" where
  "spec_letter c =
     (if 65 \<le> c \<and> c \<le> 90 then c + 32
      else if (192 \<le> c \<and> c \<le> 197) \<or> (224 \<le> c \<and> c \<le> 229) then 97
      else if c = 199 \<or> c = 231 then 99
      else if (200 \<le> c \<and> c \<le> 203) \<or> (232 \<le> c \<and> c \<le> 235) then 101
      else if (204 \<le> c \<and> c \<le> 207) \<or> (236 \<le> c \<and> c \<le> 239) then 105
      else if c = 209 \<or> c = 241 then 110
      else if (210 \<le> c \<and> c \<le> 214) \<or> (242 \<le> c \<and> c \<le> 246) then 111
      else if (217 \<le> c \<and> c \<le> 220) \<or> (249 \<le> c \<and> c \<le> 252) then 117
      else if c = 221 \<or> c = 253 \<or> c = 255 then 121
      else if c = 198 \<or> c = 208 \<or> c = 216 \<or> c = 222 then c + 32
      else c)"

definition spec_unit :: "nat \<Rightarrow> ustring" where
  "spec_unit c =
     (if c \<in> {9, 10, 11, 12, 13, 32, 160} \<or> c \<in> {94, 96, 168, 175, 180, 183, 184} then []
      else [spec_letter c])"

definition spec_normalized :: "ustring \<Rightarrow> ustring" where
  "spec_normalized a = concat (map spec_unit a)"

text \<open>
  The requirement is excluded, in the specification's words: its normalised application
  begins with \<open>applique\<close>.
\<close>

definition spec_excluded :: "gap_req \<Rightarrow> bool" where
  "spec_excluded req =
     (case orEmpty (application req) of
        JStr a \<Rightarrow> startsWith (spec_normalized a) (ascii ''applique'')
      | _ \<Rightarrow> False)"

text \<open>
  Three more application values: \<open>Applique\<close> written with A grave and e acute;
  \<open>APPLI QUEE\<close> in capitals (E acute, then E) after a no-break space and with a space
  inside; \<open>Deja applique\<close> (e acute, a grave, e acute).
\<close>

definition st_grave :: ustring where
  "st_grave = [192] @ ascii ''ppliqu'' @ [233]"

definition st_capitals :: ustring where
  "st_capitals = [160] @ ascii ''APPLI QU'' @ [201] @ ascii ''E''"

definition st_deja :: ustring where
  "st_deja = ascii ''D'' @ [233] @ ascii ''j'' @ [224] @ ascii '' appliqu'' @ [233]"

section \<open>Atelier 4: operational scenarios\<close>

record risk =
  r_name :: ustring
  r_vraisemblance :: jsval
  r_gravite :: jsval

record scenario =
  so_id :: "ustring option"
  eventId :: ustring
  path :: ustring
  connaitre :: "ustring list"
  rester :: "ustring list"
  trouver :: "ustring list"
  exploiter :: "ustring list"
  risks :: "risk list"
  vraisemblance :: jsval
  gravite :: jsval

section \<open>The current analysis and its persisted image\<close>

text \<open>
  The data of the analysis being edited.  \<open>events\<close> is \<open>None\<close> when the property is absent.
  \<open>others\<close> stands for the collections no operation below touches: the mission
  description, \<open>pp\<close>, \<open>ss\<close>, \<open>strategies\<close>, \<open>risques\<close> and the four action collections.
\<close>

record analysis_data =
  missions :: "mission list"
  events :: "event list option"
  gap :: "gap_req list"
  srov :: "srov_item list"
  ppc :: "ppc_item list"
  so :: "scenario list"
  others :: jsval

text \<open>
  \<open>current\<close> is the analysis in memory, \<open>saved\<close> its image in \<open>localStorage\<close>, as the last
  call of \<open>saveAnalyses()\<close> wrote it.  The handlers below end by redrawing tables and
  charts; the redraw, which runs the normalisation of the tables it draws, comes after the
  save and is not part of them.
\<close>

record workspace =
  current :: analysis_data
  saved :: analysis_data

definition saveAnalyses :: "analysis_data \<Rightarrow> workspace" where
  "saveAnalyses d = \<lparr> current = d, saved = d \<rparr>"

text \<open>\<open>xs.splice(i, 1)\<close>: the list without its element at index \<open>i\<close>.\<close>

definition splice1 :: "nat \<Rightarrow> 'a list \<Rightarrow> 'a list" where
  "splice1 i xs = take i xs @ drop (Suc i) xs"

text \<open>
  The click handler of the delete button of the mission row \<open>idx\<close> in
  \<open>renderMissionsTable\<close>; \<open>mission\<close> is the mission of that row.  There is no such row,
  hence no handler, when \<open>idx\<close> is not an index of the list: \<open>None\<close>.
\<close>

definition deleteMissionClick :: "nat \<Rightarrow> workspace \<Rightarrow> workspace option" where
  "deleteMissionClick idx w =
     (let d = current w
      in if idx < length (missions d)
         then (let mission = missions d ! idx;
                   d1 = d\<lparr> missions := splice1 idx (missions d) \<rparr>;
                   d2 = (case events d1 of
                           None \<Rightarrow> d1
                         | Some evs \<Rightarrow>
                             d1\<lparr> events := Some (filter (\<lambda>ev. missionId ev \<noteq> m_id mission) evs) \<rparr>)
               in Some (saveAnalyses d2))
         else None)"

subsection \<open>The risk selection modal\<close>

text \<open>
  \<open>riskModalTarget\<close> refers to the scenario the modal was opened for, by its position in
  \<open>so\<close>; \<open>selectedRiskNames\<close> is the multi-selection of the library list.
\<close>

record risk_modal =
  riskModalTarget :: "nat option"
  selectedRiskNames :: "ustring list"

definition openRiskModal :: "nat \<Rightarrow> risk_modal" where
  "openRiskModal i = \<lparr> riskModalTarget = Some i, selectedRiskNames = [] \<rparr>"

definition closeRiskModal :: "risk_modal \<Rightarrow> risk_modal" where
  "closeRiskModal m = m\<lparr> riskModalTarget := None \<rparr>"

text \<open>\<open>target.risks.push({ name, vraisemblance: target.vraisemblance, gravite: target.gravite })\<close>.\<close>

definition pushRisk :: "ustring \<Rightarrow> scenario \<Rightarrow> scenario" where
  "pushRisk name target =
     target\<lparr> risks := risks target @
       [\<lparr> r_name = name, r_vraisemblance = vraisemblance target, r_gravite = gravite target \<rparr>] \<rparr>"

text \<open>A click on an entry of the library list toggles its name in the selection.\<close>

definition toggleRisk :: "ustring \<Rightarrow> risk_modal \<Rightarrow> risk_modal" where
  "toggleRisk name m =
     (if name \<in> set (selectedRiskNames m)
      then m\<lparr> selectedRiskNames := remove1 name (selectedRiskNames m) \<rparr>
      else m\<lparr> selectedRiskNames := selectedRiskNames m @ [name] \<rparr>)"

definition addRiskToScenario :: "ustring \<Rightarrow> workspace \<times> risk_modal \<Rightarrow> workspace \<times> risk_modal" where
  "addRiskToScenario name wm =
     (case riskModalTarget (snd wm) of
        None \<Rightarrow> wm
      | Some i \<Rightarrow>
          (let d = current (fst wm);
               d' = d\<lparr> so := (so d)[i := pushRisk name (so d ! i)] \<rparr>
           in (saveAnalyses d', closeRiskModal (snd wm))))"

text \<open>The button of the manual entry: the trimmed text of the input is the name.\<close>

definition manualClick :: "ustring \<Rightarrow> workspace \<times> risk_modal \<Rightarrow> workspace \<times> risk_modal" where
  "manualClick input wm =
     (let name = trim input in if name = [] then wm else addRiskToScenario name wm)"

text \<open>The button that applies the selection.\<close>

definition applyClick :: "workspace \<times> risk_modal \<Rightarrow> workspace \<times> risk_modal" where
  "applyClick wm =
     (case riskModalTarget (snd wm) of
        None \<Rightarrow> wm
      | Some i \<Rightarrow>
          if selectedRiskNames (snd wm) = [] then (fst wm, closeRiskModal (snd wm))
          else (let d = current (fst wm);
                    d' = d\<lparr> so := (so d)[i := fold pushRisk (selectedRiskNames (snd wm)) (so d ! i)] \<rparr>
                in (saveAnalyses d', closeRiskModal (snd wm))))"

text \<open>The risk the modal stores for a name, from the levels of a scenario.\<close>

definition riskFrom :: "scenario \<Rightarrow> ustring \<Rightarrow> risk" where
  "riskFrom s name = \<lparr> r_name = name, r_vraisemblance = vraisemblance s, r_gravite = gravite s \<rparr>"

text \<open>A small analysis: two missions, three events, one scenario.\<close>

definition mission_M2 :: mission where
  "mission_M2 = \<lparr> m_id = Some (ascii ''M2''), denom = ascii ''M2'', nature = ascii ''fonction'',
     m_description = [], m_responsable = [], supports = [] \<rparr>"

definition event_E2 :: event where
  "event_E2 = \<lparr> ev_id = Some (ascii ''E2''), missionId = Some (ascii ''M2''),
     evenement = ascii ''E2'', impactDescription = [], impact = JNum 2 \<rparr>"

definition event_E3 :: event where
  "event_E3 = \<lparr> ev_id = Some (ascii ''E3''), missionId = Some (ascii ''M1''),
     evenement = ascii ''E3'', impactDescription = [], impact = JNum 4 \<rparr>"

definition scenario_S :: scenario where
  "scenario_S = \<lparr> so_id = Some (ascii ''so-1''), eventId = ascii ''E1'', path = [],
     connaitre = [], rester = [], trouver = [], exploiter = [], risks = [],
     vraisemblance = JNum 3, gravite = JNum 4 \<rparr>"

definition data_example :: analysis_data where
  "data_example = \<lparr> missions = [mission_M1, mission_M2],
     events = Some [event_E1, event_E2, event_E3], gap = [], srov = [], ppc = [],
     so = [scenario_S], others = JNull \<rparr>"

section \<open>Import and export\<close>

text \<open>
  What \<open>JSON.parse\<close> makes of the text of a file: a SyntaxError with its message, or the
  value read.  An import handler ends in one of three ways: \<open>Rejected msg s\<close>, the alert
  \<open>msg\<close> is shown and the state is \<open>s\<close>; \<open>Failed s\<close>, an exception other than the
  SyntaxError reached the \<open>catch\<close>, whose alert then carries the engine's message, and
  the state is \<open>s\<close>; \<open>Applied s\<close>, the handler ran to its end, no alert, and the state
  is \<open>s\<close>.
\<close>

datatype parsed = SyntaxError ustring | Parsed jsval

datatype 'st outcome = Rejected ustring 'st | Failed 'st | Applied 'st

fun isArray :: "jsval \<Rightarrow> bool" where
  "isArray (JArr xs) = True"
| "isArray _ = False"

text \<open>
  The HTML pages are not part of the source: a page is taken as the set of element ids
  that \<open>document.getElementById\<close> finds on it.
\<close>

type_synonym page = "string \<Rightarrow> bool"

text \<open>
  \<open>uid()\<close>: the prefix \<open>id-\<close> followed by characters drawn from \<open>Math.random()\<close> and the
  clock, here \<open>r\<close>.
\<close>

definition uid :: "ustring \<Rightarrow> ustring" where
  "uid r = ascii ''id-'' @ r"

subsection \<open>GAP bulk import\<close>

text \<open>
  \<open>obj.key\<close> for a value that is neither \<open>null\<close> nor \<open>undefined\<close>: the property of an
  object (its keys are distinct), \<open>undefined\<close> on anything else.
\<close>

definition getField :: "jsval \<Rightarrow> string \<Rightarrow> jsval" where
  "getField obj key =
     (case obj of
        JObj ps \<Rightarrow> (case map_of ps (ascii key) of Some v \<Rightarrow> v | None \<Rightarrow> JUndefined)
      | _ \<Rightarrow> JUndefined)"

text \<open>\<open>a || b || ''\<close>.\<close>

definition firstTruthy :: "jsval \<Rightarrow> jsval \<Rightarrow> jsval" where
  "firstTruthy a b = (if truthy a then a else if truthy b then b else JStr [])"

text \<open>
  The requirement built from one element of the document; reading a property of \<open>null\<close>
  throws: \<open>None\<close>.
\<close>

definition reqOf :: "ustring \<Rightarrow> jsval \<Rightarrow> gap_req option" where
  "reqOf u obj =
     (if obj = JNull \<or> obj = JUndefined then None
      else Some \<lparr> g_id = Some u,
                  domaine = firstTruthy (getField obj ''domaine'') (getField obj ''domain''),
                  titre = firstTruthy (getField obj ''titre'') (getField obj ''title''),
                  g_description = firstTruthy (getField obj ''description'') (getField obj ''desc''),
                  application = firstTruthy (getField obj ''application'') (getField obj ''status''),
                  justification =
                    firstTruthy (getField obj ''justification'') (getField obj ''justif'') \<rparr>)"

text \<open>
  The \<open>forEach\<close> over the document, pushing onto \<open>analysis.data.gap\<close>: the list reached, and
  whether the loop ran to its end.
\<close>

fun pushReqs :: "(nat \<Rightarrow> ustring) \<Rightarrow> nat \<Rightarrow> jsval list \<Rightarrow> gap_req list \<Rightarrow> gap_req list \<times> bool" where
  "pushReqs us i [] acc = (acc, True)"
| "pushReqs us i (obj # objs) acc =
     (case reqOf (us i) obj of
        None \<Rightarrow> (acc, False)
      | Some req \<Rightarrow> pushReqs us (Suc i) objs (acc @ [req]))"

text \<open>
  \<open>renderGapTable\<close>, as far as the analysis is concerned: on a page with the table body
  \<open>gap-body\<close>, every requirement drawn that has no id receives one; \<open>us k\<close>, \<open>us (k + 1)\<close>
  and so on are the results of the calls of \<open>uid()\<close>.  Nothing in it throws on a list of
  requirements.
\<close>

fun assignIds :: "(nat \<Rightarrow> ustring) \<Rightarrow> nat \<Rightarrow> gap_req list \<Rightarrow> gap_req list" where
  "assignIds us k [] = []"
| "assignIds us k (req # reqs) =
     (if missingId (g_id req) then req\<lparr> g_id := Some (us k) \<rparr> # assignIds us (Suc k) reqs
      else req # assignIds us k reqs)"

definition renderGapTable :: "page \<Rightarrow> (nat \<Rightarrow> ustring) \<Rightarrow> nat \<Rightarrow> analysis_data \<Rightarrow> analysis_data" where
  "renderGapTable pg us k d =
     (if pg ''gap-body'' then d\<lparr> gap := assignIds us k (gap d) \<rparr> else d)"

text \<open>
  \<open>updateGapChart\<close> changes nothing in the analysis.  On a page with the container
  \<open>gap-overview-chart\<close> it calls \<open>(req.application || '').toLowerCase()\<close> for every
  requirement, which throws a TypeError when the application is truthy and not a string.
\<close>

definition updateGapChartThrows :: "page \<Rightarrow> analysis_data \<Rightarrow> bool" where
  "updateGapChartThrows pg d =
     (if pg ''gap-overview-chart''
      then list_ex (\<lambda>req. case orEmpty (application req) of JStr a \<Rightarrow> False | _ \<Rightarrow> True) (gap d)
      else False)"

text \<open>
  \<open>reader.onload\<close> of the GAP import, on the page \<open>pg\<close>.  The state is the current
  analysis with its saved image, \<open>None\<close> when no analysis is selected
  (\<open>analyses[currentIndex]\<close> is \<open>undefined\<close>).  The whole body is one \<open>try\<close>: the loop that
  pushes the requirements, \<open>saveAnalyses()\<close>, then \<open>renderGapTable()\<close> and
  \<open>updateGapChart()\<close>.  The separator in the alert of the \<open>catch\<close> is a no-break space,
  code unit 160, followed by a colon and a space.
\<close>

definition gapImportFile ::
  "page \<Rightarrow> (nat \<Rightarrow> ustring) \<Rightarrow> parsed \<Rightarrow> workspace option \<Rightarrow> workspace option outcome" where
  "gapImportFile pg us p w =
     (case p of
        SyntaxError msg \<Rightarrow>
          Rejected (ascii ''Erreur lors de la lecture du fichier'' @ [160] @ ascii '': '' @ msg) w
      | Parsed json \<Rightarrow>
          (case json of
             JArr objs \<Rightarrow>
               (case w of
                  None \<Rightarrow> Failed None
                | Some ws \<Rightarrow>
                    (let r = pushReqs us 0 objs (gap (current ws));
                         d = (current ws)\<lparr> gap := fst r \<rparr>
                     in if snd r
                        then (let d' = renderGapTable pg us (length objs) d
                              in if updateGapChartThrows pg d'
                                 then Failed (Some ((saveAnalyses d)\<lparr> current := d' \<rparr>))
                                 else Applied (Some ((saveAnalyses d)\<lparr> current := d' \<rparr>)))
                        else Failed (Some (ws\<lparr> current := d \<rparr>))))
           | _ \<Rightarrow>
               Rejected (ascii ''Le fichier doit contenir un tableau d'' @ [39] @ ascii ''exigences.'')
                 w))"

text \<open>
  The page of the GAP analysis, and the requirements that the import builds from the
  elements \<open>{"titre": "MFA"}\<close> and \<open>{"application": 5}\<close> of a document.
\<close>

definition gap_page :: page where
  "gap_page e = (e \<in> set [''import-gap-btn'', ''gap-import-file'', ''gap-table'', ''gap-body'',
     ''gap-overview-chart''])"

definition req_mfa :: "ustring \<Rightarrow> gap_req" where
  "req_mfa u = \<lparr> g_id = Some u, domaine = JStr [], titre = JStr (ascii ''MFA''),
     g_description = JStr [], application = JStr [], justification = JStr [] \<rparr>"

definition req_five :: "ustring \<Rightarrow> gap_req" where
  "req_five u = \<lparr> g_id = Some u, domaine = JStr [], titre = JStr [],
     g_description = JStr [], application = JNum 5, justification = JStr [] \<rparr>"

subsection \<open>Import of analyses\<close>

text \<open>
  The store: the list \<open>analyses\<close>, whose entries are whatever was imported, the index of the
  current one, and \<open>stored\<close>, the image of the list in \<open>localStorage\<close>.
\<close>

record store =
  analyses :: "jsval list"
  currentIndex :: int
  stored :: "jsval list"

text \<open>
  \<open>jsonify v\<close> is the value read back from the text \<open>JSON.stringify(v)\<close>: a property whose
  value is \<open>undefined\<close> is dropped, an \<open>undefined\<close> array element becomes \<open>null\<close>.  The
  text in \<open>localStorage\<close> is identified with the value \<open>JSON.parse\<close> reads from it.
\<close>

fun jsonify :: "jsval \<Rightarrow> jsval" where
  "jsonify JUndefined = JNull"
| "jsonify JNull = JNull"
| "jsonify (JBool b) = JBool b"
| "jsonify (JNum n) = JNum n"
| "jsonify (JStr s) = JStr s"
| "jsonify (JArr xs) = JArr (map jsonify xs)"
| "jsonify (JObj ps) =
     JObj (map (\<lambda>p. (fst p, jsonify (snd p))) (filter (\<lambda>p. snd p \<noteq> JUndefined) ps))"

definition saveStore :: "store \<Rightarrow> store" where
  "saveStore st = st\<lparr> stored := map jsonify (analyses st) \<rparr>"

text \<open>
  The first statements of \<open>reader.onload\<close> of the import of analyses, up to the redraw:
  \<open>JSON.parse\<close>, whose SyntaxError gives \<open>None\<close>; an array replaces the list, an object
  (\<open>null\<close> has type \<open>object\<close> too) is appended, anything else changes nothing; the list is
  saved and its last entry becomes the current one.
\<close>

definition importBegin :: "parsed \<Rightarrow> store \<Rightarrow> store option" where
  "importBegin p st =
     (case p of
        SyntaxError msg \<Rightarrow> None
      | Parsed json \<Rightarrow>
          (let as' = (case json of
                        JArr xs \<Rightarrow> xs
                      | JObj ps \<Rightarrow> analyses st @ [json]
                      | JNull \<Rightarrow> analyses st @ [json]
                      | _ \<Rightarrow> analyses st);
               st1 = saveStore (st\<lparr> analyses := as' \<rparr>)
           in Some (st1\<lparr> currentIndex := int (length as') - 1 \<rparr>)))"

text \<open>
  \<open>renderAnalysisList\<close>, the first call of the redraw, changes no analysis.  It throws a
  TypeError when the page has no element \<open>analysis-list\<close>, and when an entry of the list
  is \<open>null\<close> or \<open>undefined\<close>, whose \<open>title\<close> it reads.
\<close>

definition renderAnalysisListThrows :: "page \<Rightarrow> jsval list \<Rightarrow> bool" where
  "renderAnalysisListThrows pg as =
     (if pg ''analysis-list'' then list_ex (\<lambda>a. a = JNull \<or> a = JUndefined) as else True)"

text \<open>An analysis as \<open>new-analysis-btn\<close> creates it, with a title, and a store holding it.\<close>

definition analysis_example :: jsval where
  "analysis_example =
     JObj [(ascii ''id'', JStr (ascii ''id-a1'')), (ascii ''title'', JStr (ascii ''Demo'')),
           (ascii ''data'', JObj [(ascii ''missions'', JArr [JObj [(ascii ''denom'', JStr (ascii ''M1''))]]),
                                  (ascii ''events'', JArr [])])]"

definition store_example :: store where
  "store_example = \<lparr> analyses = [analysis_example], currentIndex = 0, stored = [analysis_example] \<rparr>"



subsection \<open>Export of an analysis\<close>





section \<open>Properties\<close>

lemma digitsValue_snoc:
  "digitsValue (ds @ [d]) = 10 * digitsValue ds + (int d - 48)"
  by (simp add: digitsValue_def)

subsection \<open>Reading numbers\<close>

lemmas js_eval = parseInt_def parseIntStr_def ascii_def isSpace_def isDigit_def
  digitsValue_def numToString_def

lemma digitsOf_digits: "\<forall>c \<in> set (digitsOf n). isDigit c"
proof (induction n rule: digitsOf.induct)
  case (1 n)
  show ?case
  proof (cases "n < 10")
    case True
    then show ?thesis by (subst digitsOf.simps) (simp add: isDigit_def)
  next
    case False
    with 1 show ?thesis by (subst digitsOf.simps) (simp add: isDigit_def)
  qed
qed

lemma digitsOf_nonempty: "digitsOf n \<noteq> []"
  by (subst digitsOf.simps) simp

lemma digitsValue_digitsOf: "digitsValue (digitsOf n) = int n"
proof (induction n rule: digitsOf.induct)
  case (1 n)
  show ?case
  proof (cases "n < 10")
    case True
    then show ?thesis by (subst digitsOf.simps) (simp add: digitsValue_def)
  next
    case False
    with 1 have "digitsValue (digitsOf (n div 10)) = int (n div 10)" by simp
    moreover have "int n = 10 * int (n div 10) + int (n mod 10)"
    proof -
      have "n = 10 * (n div 10) + n mod 10" by simp
      then have "int n = int (10 * (n div 10) + n mod 10)" by simp
      then show ?thesis by (simp only: of_nat_add of_nat_mult of_nat_numeral)
    qed
    ultimately show ?thesis using False
      by (subst digitsOf.simps) (simp add: digitsValue_snoc)
  qed
qed

lemma isDigit_not_space: "isDigit c \<Longrightarrow> \<not> isSpace c"
  by (auto simp: isDigit_def isSpace_def)

lemma isDigit_not_sign: "isDigit c \<Longrightarrow> c \<noteq> 43 \<and> c \<noteq> 45"
  by (auto simp: isDigit_def)

lemma parseIntStr_digits:
  assumes "ds \<noteq> []" and "\<forall>c \<in> set ds. isDigit c"
  shows "parseIntStr ds = Num (digitsValue ds)"
proof -
  from assms obtain d ds' where ds: "ds = d # ds'" by (cases ds) auto
  with assms have d: "isDigit d" by simp
  have tw: "takeWhile isDigit ds' = ds'"
    using assms(2) ds by (simp add: takeWhile_eq_all_conv)
  show ?thesis
    using d isDigit_not_space[OF d] isDigit_not_sign[OF d]
    by (simp add: parseIntStr_def ds Let_def tw)
qed

lemma parseIntStr_minus_digits:
  assumes "ds \<noteq> []" and "\<forall>c \<in> set ds. isDigit c"
  shows "parseIntStr (45 # ds) = Num (- digitsValue ds)"
proof -
  have tw: "takeWhile isDigit ds = ds" using assms(2) by (simp add: takeWhile_eq_all_conv)
  have "\<not> isSpace 45" by (simp add: isSpace_def)
  then show ?thesis using assms(1)
    by (simp add: parseIntStr_def Let_def tw)
qed

text \<open>\<open>parseInt\<close> reads an integer-valued Number back unchanged.\<close>

lemma parseInt_JNum: "parseInt (JNum n) = Num n"
proof (cases "n < 0")
  case True
  then show ?thesis
    using parseIntStr_minus_digits[OF digitsOf_nonempty digitsOf_digits, of "nat (- n)"]
    by (simp add: parseInt_def numToString_def digitsValue_digitsOf)
next
  case False
  then show ?thesis
    using parseIntStr_digits[OF digitsOf_nonempty digitsOf_digits, of "nat n"]
    by (simp add: parseInt_def numToString_def digitsValue_digitsOf)
qed

lemma orElse_nonzero: "d \<noteq> 0 \<Longrightarrow> orElse x d \<noteq> 0"
  by (cases x) auto

lemma intOr1_nonzero: "intOr1 v \<noteq> 0"
  by (simp add: intOr1_def orElse_nonzero)

lemma intOr1_JNum: "n \<noteq> 0 \<Longrightarrow> intOr1 (JNum n) = n"
  by (simp add: intOr1_def parseInt_JNum)

subsection \<open>Pertinence of a SROV couple\<close>

lemma pertinenceBucket_mono: "p \<le> q \<Longrightarrow> pertinenceBucket p \<le> pertinenceBucket q"
  by (simp add: pertinenceBucket_def)

text \<open>
  C1.  For every SROV couple, the pertinence shown in the table is the product of the
  couple's (normalised) motivation and ressources, and its level is 4 from 13, 3 from 9,
  2 from 5 and 1 below.  The edge drawn by the Atelier 2 network for the couple, whether
  it reads the item as stored or as normalised by the table, carries the same product and
  the same level.  Whatever Numbers the two fields hold when a select changes, the cell
  shows the product of \<open>motivation || 1\<close> and \<open>ressources || 1\<close> with the level given by
  the same thresholds.
\<close>

theorem C1_pertinence_thresholds:
  "\<exists>m r. motivation (fst (renderSROVRow u item)) = JNum m
     \<and> ressources (fst (renderSROVRow u item)) = JNum r
     \<and> fst (snd (renderSROVRow u item)) = m * r
     \<and> snd (snd (renderSROVRow u item)) =
         (if m * r \<ge> 13 then 4 else if m * r \<ge> 9 then 3 else if m * r \<ge> 5 then 2 else 1)
     \<and> e_p (atelier2Edge item) = m * r
     \<and> e_bucket (atelier2Edge item) = snd (snd (renderSROVRow u item))
     \<and> e_p (atelier2Edge (fst (renderSROVRow u item))) = m * r
     \<and> e_bucket (atelier2Edge (fst (renderSROVRow u item))) = snd (snd (renderSROVRow u item))
     \<and> fst (setPertinence a b) = orElse a 1 * orElse b 1
     \<and> snd (setPertinence a b) =
         (if fst (setPertinence a b) \<ge> 13 then 4 else if fst (setPertinence a b) \<ge> 9 then 3
          else if fst (setPertinence a b) \<ge> 5 then 2 else 1)"
proof -
  define m where "m = intOr1 (motivation item)"
  define r where "r = intOr1 (ressources item)"
  have m0: "m \<noteq> 0" and r0: "r \<noteq> 0"
    by (simp_all add: m_def r_def intOr1_nonzero)
  have row: "renderSROVRow u item =
      (normSrov u item, (m * r, pertinenceBucket (m * r)))"
    using m0 r0 by (simp add: renderSROVRow_def normSrov_def setPertinence_def Let_def m_def r_def)
  have e1: "e_p (atelier2Edge item) = m * r"
      "e_bucket (atelier2Edge item) = pertinenceBucket (m * r)"
    by (simp_all add: atelier2Edge_def Let_def m_def r_def)
  have e2: "e_p (atelier2Edge (normSrov u item)) = m * r"
      "e_bucket (atelier2Edge (normSrov u item)) = pertinenceBucket (m * r)"
    using m0 r0 by (simp_all add: atelier2Edge_def normSrov_def Let_def m_def r_def intOr1_JNum)
  have f: "motivation (normSrov u item) = JNum m" "ressources (normSrov u item) = JNum r"
    by (simp_all add: normSrov_def m_def r_def)
  have g: "fst (setPertinence a b) = orElse a 1 * orElse b 1"
      "snd (setPertinence a b) =
         (if fst (setPertinence a b) \<ge> 13 then 4 else if fst (setPertinence a b) \<ge> 9 then 3
          else if fst (setPertinence a b) \<ge> 5 then 2 else 1)"
    by (simp_all add: setPertinence_def Let_def pertinenceBucket_def)
  have h: "snd (snd (renderSROVRow u item)) =
         (if m * r \<ge> 13 then 4 else if m * r \<ge> 9 then 3 else if m * r \<ge> 5 then 2 else 1)"
    using row by (simp add: pertinenceBucket_def)
  show ?thesis
    apply (rule exI[of _ m], rule exI[of _ r])
    using row e1 e2 f g h by simp
qed

theorem C1_pertinence_witness:
  "fst (snd (renderSROVRow (ascii ''id-1'') srov_example)) = 9
   \<and> snd (snd (renderSROVRow (ascii ''id-1'') srov_example)) = 3
   \<and> e_p (atelier2Edge srov_example) = 9
   \<and> e_bucket (atelier2Edge srov_example) = 3"
proof -
  have p: "parseInt (JStr (ascii ''3'')) = Num 3"
    by (simp add: js_eval)
  have m: "motivation (fst (renderSROVRow (ascii ''id-1'') srov_example)) = JNum 3"
    by (simp add: renderSROVRow_def normSrov_def srov_example_def intOr1_def p)
  have r: "ressources (fst (renderSROVRow (ascii ''id-1'') srov_example)) = JNum 3"
    by (simp add: renderSROVRow_def normSrov_def srov_example_def intOr1_JNum)
  from C1_pertinence_thresholds [of "ascii ''id-1''" srov_example NaN NaN] m r
  show ?thesis by auto
qed

text \<open>
  C5.  On motivation and ressources between 1 and 4, the pertinence level of the product
  does not decrease when motivation grows, nor when ressources grow; the level of
  \<open>1 * 1\<close> is 1 and the level of \<open>4 * 4\<close> is 4.
\<close>

theorem C5_bucket_monotone:
  "1 \<le> m \<Longrightarrow> m \<le> m' \<Longrightarrow> m' \<le> 4 \<Longrightarrow> 1 \<le> r \<Longrightarrow> r \<le> r' \<Longrightarrow> r' \<le> 4 \<Longrightarrow>
     pertinenceBucket (m * r) \<le> pertinenceBucket (m' * r)
   \<and> pertinenceBucket (m * r) \<le> pertinenceBucket (m * r')
   \<and> pertinenceBucket (1 * 1) = 1 \<and> pertinenceBucket (4 * 4) = 4"
proof -
  assume a: "1 \<le> m" "m \<le> m'" "m' \<le> 4" "1 \<le> r" "r \<le> r'" "r' \<le> 4"
  have "m * r \<le> m' * r" using a by (intro mult_right_mono) auto
  moreover have "m * r \<le> m * r'" using a by (intro mult_left_mono) auto
  ultimately show ?thesis
    by (simp add: pertinenceBucket_mono) (simp add: pertinenceBucket_def)
qed

theorem C5_bucket_monotone_witness:
  "(1::int) \<le> 2 \<and> (2::int) \<le> 3 \<and> (3::int) \<le> 4
   \<and> pertinenceBucket (2 * 2) \<le> pertinenceBucket (3 * 2)
   \<and> pertinenceBucket (2 * 2) \<le> pertinenceBucket (2 * 3)
   \<and> pertinenceBucket (2 * 2) = 1 \<and> pertinenceBucket (3 * 2) = 2"
  using C5_bucket_monotone [of 2 3 2 3] by (simp add: pertinenceBucket_def)

subsection \<open>Stakeholder indice\<close>

lemma updateDerivedCells_niveau_nonzero: "niveau (updateDerivedCells d p m c) \<noteq> 0"
  by (simp add: updateDerivedCells_def Let_def orElse_nonzero)

text \<open>
  C3, as amended.  For every stakeholder entry, the cartography row shows the indice
  \<open>(dependance * penetration) / (maturite * confiance)\<close> of the entry's normalised scores,
  the code giving 0 for a zero denominator.  The normalisation makes maturite and confiance
  non-zero integers, \<open>parseInt(value, 10) || 1\<close>; it does not make them at least 1.  The
  denominator is therefore never zero, and it is at least 1 when the stored maturite and
  confiance are.  More generally \<open>updateDerivedCells\<close> never meets a zero niveau, whatever
  Numbers the four scores hold, so its zero branch is not taken and the indice is always
  the quotient exposition / niveau.
\<close>

theorem C3_indice_defined:
  "\<exists>d p m c. dependance (fst (renderPPCartoRow u item)) = JNum d
     \<and> penetration (fst (renderPPCartoRow u item)) = JNum p
     \<and> maturite (fst (renderPPCartoRow u item)) = JNum m
     \<and> confiance (fst (renderPPCartoRow u item)) = JNum c
     \<and> m = intOr1 (maturite item) \<and> c = intOr1 (confiance item)
     \<and> m \<noteq> 0 \<and> c \<noteq> 0
     \<and> m * c \<noteq> 0
     \<and> (atLeastOne (maturite item) \<and> atLeastOne (confiance item) \<longrightarrow> 1 \<le> m * c)
     \<and> expo (snd (renderPPCartoRow u item)) = d * p
     \<and> niveau (snd (renderPPCartoRow u item)) = m * c
     \<and> indice (snd (renderPPCartoRow u item)) = of_int (d * p) / of_int (m * c)
     \<and> niveau (updateDerivedCells a b x y) \<noteq> 0
     \<and> indice (updateDerivedCells a b x y)
         = of_int (expo (updateDerivedCells a b x y)) / of_int (niveau (updateDerivedCells a b x y))"
proof -
  define d where "d = intOr1 (dependance item)"
  define p where "p = intOr1 (penetration item)"
  define m where "m = intOr1 (maturite item)"
  define c where "c = intOr1 (confiance item)"
  have nz: "d \<noteq> 0" "p \<noteq> 0" "m \<noteq> 0" "c \<noteq> 0"
    by (simp_all add: d_def p_def m_def c_def intOr1_nonzero)
  have f: "dependance (normPPC u item) = JNum d" "penetration (normPPC u item) = JNum p"
      "maturite (normPPC u item) = JNum m" "confiance (normPPC u item) = JNum c"
    by (simp_all add: normPPC_def d_def p_def m_def c_def)
  have row: "renderPPCartoRow u item =
      (normPPC u item, updateDerivedCells (Num d) (Num p) (Num m) (Num c))"
    by (simp add: renderPPCartoRow_def Let_def f)
  have der: "expo (updateDerivedCells (Num d) (Num p) (Num m) (Num c)) = d * p"
      "niveau (updateDerivedCells (Num d) (Num p) (Num m) (Num c)) = m * c"
      "indice (updateDerivedCells (Num d) (Num p) (Num m) (Num c)) = of_int (d * p) / of_int (m * c)"
    using nz by (simp_all add: updateDerivedCells_def Let_def)
  have gen: "niveau (updateDerivedCells a b x y) \<noteq> 0"
    by (rule updateDerivedCells_niveau_nonzero)
  have gen2: "indice (updateDerivedCells a b x y)
         = of_int (expo (updateDerivedCells a b x y)) / of_int (niveau (updateDerivedCells a b x y))"
    using gen by (simp add: updateDerivedCells_def Let_def)
  have one: "atLeastOne (maturite item) \<and> atLeastOne (confiance item) \<longrightarrow> 1 \<le> m * c"
  proof
    assume a: "atLeastOne (maturite item) \<and> atLeastOne (confiance item)"
    then obtain i j where ij: "maturite item = JNum i" "confiance item = JNum j" "1 \<le> i" "1 \<le> j"
      by (cases "maturite item"; cases "confiance item") auto
    then have "m = i" "c = j" by (simp_all add: m_def c_def intOr1_JNum)
    moreover have "1 * 1 \<le> i * j" using ij(3,4) by (intro mult_mono) auto
    ultimately show "1 \<le> m * c" by simp
  qed
  have mc: "m = intOr1 (maturite item)" "c = intOr1 (confiance item)"
    by (simp_all add: m_def c_def)
  show ?thesis
    apply (rule exI[of _ d], rule exI[of _ p], rule exI[of _ m], rule exI[of _ c])
    using nz f row der gen gen2 one mc by simp
qed

theorem C3_indice_witness:
  "atLeastOne (maturite ppc_example) \<and> atLeastOne (confiance ppc_example)
   \<and> expo (snd (renderPPCartoRow (ascii ''id-9'') ppc_example)) = 16
   \<and> niveau (snd (renderPPCartoRow (ascii ''id-9'') ppc_example)) = 1
   \<and> indice (snd (renderPPCartoRow (ascii ''id-9'') ppc_example)) = 16"
proof -
  have f: "dependance (fst (renderPPCartoRow (ascii ''id-9'') ppc_example)) = JNum 4"
     "penetration (fst (renderPPCartoRow (ascii ''id-9'') ppc_example)) = JNum 4"
     "maturite (fst (renderPPCartoRow (ascii ''id-9'') ppc_example)) = JNum 1"
     "confiance (fst (renderPPCartoRow (ascii ''id-9'') ppc_example)) = JNum 1"
    by (simp_all add: renderPPCartoRow_def normPPC_def ppc_example_def intOr1_JNum)
  have a: "atLeastOne (maturite ppc_example)" "atLeastOne (confiance ppc_example)"
    by (simp_all add: ppc_example_def)
  from C3_indice_defined [of "ascii ''id-9''" ppc_example NaN NaN NaN NaN] f a
  show ?thesis by auto
qed

text \<open>
  The claim as first stated, with a normalisation that forces maturite and confiance to at
  least 1, fails on a stakeholder whose stored maturite is -1: the normalised maturite is
  still -1, the niveau is -1 and the indice is -16.
\<close>

theorem C3_at_least_one_counterexample:
  "\<not> atLeastOne (maturite (fst (renderPPCartoRow (ascii ''id-9'') ppc_negative)))
   \<and> niveau (snd (renderPPCartoRow (ascii ''id-9'') ppc_negative)) = - 1
   \<and> indice (snd (renderPPCartoRow (ascii ''id-9'') ppc_negative)) = - 16"
  by (simp add: renderPPCartoRow_def normPPC_def ppc_negative_def intOr1_JNum
      updateDerivedCells_def Let_def)

subsection \<open>Normalisation of the scores\<close>

lemma parseInt_JUndefined: "parseInt JUndefined = NaN"
  by (simp add: js_eval)

lemma parseInt_JNull: "parseInt JNull = NaN"
  by (simp add: js_eval)

lemma parseInt_empty: "parseInt (JStr []) = NaN"
  by (simp add: js_eval)

lemma parseInt_abc: "parseInt (JStr (ascii ''abc'')) = NaN"
  by (simp add: js_eval)

lemma parseInt_three: "parseInt (JStr (ascii ''3'')) = Num 3"
  by (simp add: js_eval)

lemma parseInt_zero: "parseInt (JNum 0) = Num 0"
  by (simp add: parseInt_JNum)

text \<open>
  The impact normalisation of \<open>renderEventsTable\<close>, a function no page calls: a non-zero
  Number is kept, whatever its size; anything else is replaced by the integer read when that
  integer lies between 1 and 4, and by 1 otherwise.
\<close>

lemma normImpact_spec:
  "normImpact imp =
     (if truthy imp \<and> isNumber imp then imp
      else if parseInt imp = NaN then JNum 1
      else if 1 \<le> orElse (parseInt imp) 0 \<and> orElse (parseInt imp) 0 \<le> 4
           then JNum (orElse (parseInt imp) 0)
      else JNum 1)"
  by (cases "parseInt imp") (auto simp: normImpact_def)

text \<open>
  C4, as amended.  The normalisation run when the tables are drawn replaces each SROV
  score (motivation, ressources, priorite) and each stakeholder score (dependance,
  penetration, maturite, confiance) by \<open>parseInt(value, 10) || 1\<close>.  The result is always a
  non-zero integer: 1 when the stored value is missing, does not read as a number or reads
  as 0, and the integer read otherwise; hence it is on the scale 1 to 4 whenever the integer
  read is, and it is the stored value when that already is on the scale.  Nothing is
  clamped: 7 stays 7 and -2 stays -2.
\<close>

theorem C4_scores_normalised:
  "motivation (normSrov u s) = JNum (intOr1 (motivation s))
   \<and> ressources (normSrov u s) = JNum (intOr1 (ressources s))
   \<and> priorite (normSrov u s) = JNum (intOr1 (priorite s))
   \<and> dependance (normPPC u q) = JNum (intOr1 (dependance q))
   \<and> penetration (normPPC u q) = JNum (intOr1 (penetration q))
   \<and> maturite (normPPC u q) = JNum (intOr1 (maturite q))
   \<and> confiance (normPPC u q) = JNum (intOr1 (confiance q))
   \<and> intOr1 v \<noteq> 0
   \<and> (parseInt v = NaN \<longrightarrow> intOr1 v = 1)
   \<and> (parseInt v = Num 0 \<longrightarrow> intOr1 v = 1)
   \<and> (parseInt v = Num k \<and> k \<noteq> 0 \<longrightarrow> intOr1 v = k)
   \<and> (parseInt v = Num k \<and> 1 \<le> k \<and> k \<le> 4 \<longrightarrow> inScale (JNum (intOr1 v)))
   \<and> (inScale v \<longrightarrow> JNum (intOr1 v) = v)
   \<and> intOr1 JUndefined = 1
   \<and> intOr1 JNull = 1
   \<and> intOr1 (JStr []) = 1
   \<and> intOr1 (JStr (ascii ''abc'')) = 1
   \<and> intOr1 (JNum 0) = 1
   \<and> intOr1 (JStr (ascii ''3'')) = 3
   \<and> intOr1 (JNum 7) = 7
   \<and> intOr1 (JNum (- 2)) = - 2"
proof -
  have a: "inScale v \<longrightarrow> JNum (intOr1 v) = v"
    by (cases v) (auto simp: intOr1_JNum)
  have lits: "intOr1 JUndefined = 1" "intOr1 JNull = 1" "intOr1 (JStr []) = 1"
     "intOr1 (JStr (ascii ''abc'')) = 1" "intOr1 (JNum 0) = 1"
     "intOr1 (JStr (ascii ''3'')) = 3"
    by (simp_all add: intOr1_def parseInt_JUndefined parseInt_JNull parseInt_empty
        parseInt_abc parseInt_zero parseInt_three)
  have gen: "parseInt v = NaN \<longrightarrow> intOr1 v = 1" "parseInt v = Num 0 \<longrightarrow> intOr1 v = 1"
     "parseInt v = Num k \<and> k \<noteq> 0 \<longrightarrow> intOr1 v = k"
     "parseInt v = Num k \<and> 1 \<le> k \<and> k \<le> 4 \<longrightarrow> inScale (JNum (intOr1 v))"
    by (auto simp: intOr1_def)
  show ?thesis
    using a lits gen
    by (simp add: normSrov_def normPPC_def intOr1_nonzero intOr1_JNum)
qed

theorem C4_scores_witness:
  "motivation (normSrov (ascii ''id-1'') srov_example) = JNum 3
   \<and> priorite (normSrov (ascii ''id-1'') srov_example) = JNum 1
   \<and> maturite (normPPC (ascii ''id-9'') ppc_example) = JNum 1
   \<and> parseInt (JStr (ascii ''3'')) = Num 3
   \<and> inScale (JNum (intOr1 (JStr (ascii ''3''))))
   \<and> parseInt JUndefined = NaN
   \<and> parseInt (JNum 0) = Num 0
   \<and> inScale (JNum 1)
   \<and> JNum (intOr1 (JNum 1)) = JNum 1"
proof -
  have p: "parseInt (JStr (ascii ''3'')) = Num 3" "parseInt JUndefined = NaN"
     "parseInt (JNum 0) = Num 0"
    by (simp_all add: parseInt_three parseInt_JUndefined parseInt_zero)
  have f: "motivation srov_example = JStr (ascii ''3'')" "priorite srov_example = JUndefined"
     "maturite ppc_example = JNum 1"
    by (simp_all add: srov_example_def ppc_example_def)
  from C4_scores_normalised [of "ascii ''id-1''" srov_example ppc_example "JStr (ascii ''3'')" 3]
    C4_scores_normalised [of "ascii ''id-9''" srov_example ppc_example "JNum 1" 1]
    C4_scores_normalised [of "ascii ''id-3''" srov_example ppc_example "JUndefined" 1]
    C4_scores_normalised [of "ascii ''id-3''" srov_example ppc_example "JNum 0" 1] p f
  show ?thesis by simp
qed

text \<open>
  The claim as first stated, that every normalised score lies between 1 and 4, fails on a
  couple whose stored motivation is 7: the normalised motivation is still 7.
\<close>

theorem C4_clamp_counterexample:
  "\<not> inScale (motivation (normSrov (ascii ''id-1'') srov_unclamped))"
  by (simp add: normSrov_def srov_unclamped_def intOr1_JNum)

subsection \<open>Mission impact and support statistics\<close>

lemma fold_impactStep:
  "fold impactStep evs mp k = maxAcc (mp k) (impactsOf k evs)"
proof (induction evs arbitrary: mp)
  case Nil
  then show ?case by (simp add: impactsOf_def)
next
  case (Cons ev evs)
  have step: "impactStep ev mp k =
      (if missionId ev = k
       then (case mp k of None \<Rightarrow> Some (orElse (parseInt (impact ev)) 0)
             | Some v \<Rightarrow> Some (max v (orElse (parseInt (impact ev)) 0)))
       else mp k)"
    by (auto simp: impactStep_def Let_def max_def split: option.splits)
  have tail: "impactsOf k (ev # evs) =
      (if missionId ev = k then orElse (parseInt (impact ev)) 0 # impactsOf k evs
       else impactsOf k evs)"
    by (simp add: impactsOf_def)
  show ?case
    by (simp add: Cons.IH step tail split: option.splits)
qed

lemma Max_insert_max:
  fixes v x :: int
  shows "Max (insert (max v x) (set xs)) = Max (insert v (insert x (set xs)))"
proof (cases "xs = []")
  case True
  then show ?thesis by (simp add: max.commute)
next
  case False
  then show ?thesis by (simp add: max.assoc)
qed

lemma maxAcc_Some: "maxAcc (Some v) xs = Some (Max (set (v # xs)))"
proof (induction xs arbitrary: v)
  case Nil
  then show ?case by simp
next
  case (Cons x xs)
  then show ?case by (simp add: Max_insert_max)
qed

lemma maxAcc_None: "maxAcc None xs = (if xs = [] then None else Some (Max (set xs)))"
  by (cases xs) (simp_all add: maxAcc_Some)

lemma missionImpact_spec: "missionImpact (impactByMission evs) mid = maxImpactOf mid evs"
  by (simp add: missionImpact_def impactByMission_def fold_impactStep maxAcc_None maxImpactOf_def)

lemma statAcc_append: "statAcc a (xs @ ys) = statAcc (statAcc a xs) ys"
  by (induction xs arbitrary: a) simp_all

lemma statStep_at:
  assumes "name \<noteq> []"
  shows "statStep mImp s mp name =
     (if trim (s_name s) = name then Some (bump (mp name) mImp) else mp name)"
  using assms
  by (auto simp: statStep_def Let_def bump_def max_def split: option.splits)

lemma fold_statStep:
  assumes "name \<noteq> []"
  shows "fold (statStep mImp) ss mp name =
     statAcc (mp name) (map (\<lambda>s. mImp) (filter (\<lambda>s. trim (s_name s) = name) ss))"
proof (induction ss arbitrary: mp)
  case Nil
  then show ?case by simp
next
  case (Cons s ss)
  show ?case by (simp add: Cons.IH statStep_at[OF assms])
qed

lemma links_Cons:
  "links name (m # ms) =
     map (\<lambda>s. m) (filter (\<lambda>s. trim (s_name s) = name) (supports m)) @ links name ms"
  by (simp add: links_def)

lemma fold_missions:
  assumes "name \<noteq> []"
  shows "fold (\<lambda>m acc. fold (statStep (f m)) (supports m) acc) ms mp name =
     statAcc (mp name) (map f (links name ms))"
proof (induction ms arbitrary: mp)
  case Nil
  then show ?case by (simp add: links_def)
next
  case (Cons m ms)
  show ?case
    by (simp add: Cons.IH fold_statStep[OF assms] links_Cons statAcc_append comp_def)
qed

lemma statAcc_Some:
  "statAcc (Some st) xs =
     Some \<lparr> degree = degree st + length xs, maxImpact = Max (set (maxImpact st # xs)) \<rparr>"
proof (induction xs arbitrary: st)
  case Nil
  then show ?case by simp
next
  case (Cons x xs)
  then show ?case by (simp add: bump_def Max_insert_max)
qed

lemma statAcc_None:
  "statAcc None xs =
     (if xs = [] then None
      else Some \<lparr> degree = length xs, maxImpact = Max (set (0 # xs)) \<rparr>)"
proof (cases xs)
  case Nil
  then show ?thesis by simp
next
  case (Cons x xs')
  then show ?thesis by (simp add: statAcc_Some bump_def Max_insert_max)
qed

lemma supportStats_links:
  assumes "name \<noteq> []"
  shows "supportStats msns evts name =
     (if links name msns = [] then None
      else Some \<lparr> degree = length (links name msns),
                  maxImpact = Max (set (0 # map (\<lambda>m. maxImpactOf (m_id m) evts)
                                            (links name msns))) \<rparr>)"
  by (simp add: supportStats_def fold_missions[OF assms] statAcc_None missionImpact_spec)

lemma references_filter:
  "references name m \<longleftrightarrow> filter (\<lambda>s. trim (s_name s) = name) (supports m) \<noteq> []"
  by (auto simp: references_def filter_empty_conv)

lemma set_links: "set (links name msns) = set (filter (references name) msns)"
proof (induction msns)
  case Nil
  then show ?case by (simp add: links_def)
next
  case (Cons m ms)
  show ?case
  proof (cases "references name m")
    case True
    then have "set (map (\<lambda>s. m) (filter (\<lambda>s. trim (s_name s) = name) (supports m))) = {m}"
      by (cases "filter (\<lambda>s. trim (s_name s) = name) (supports m)")
         (auto simp: references_filter)
    with True Cons show ?thesis by (simp add: links_Cons)
  next
    case False
    with Cons show ?thesis by (simp add: links_Cons references_filter)
  qed
qed

lemma links_once:
  assumes "\<forall>m \<in> set msns. length (filter (\<lambda>s. trim (s_name s) = name) (supports m)) \<le> 1"
  shows "links name msns = filter (references name) msns"
  using assms
proof (induction msns)
  case Nil
  then show ?case by (simp add: links_def)
next
  case (Cons m ms)
  then have ih: "links name ms = filter (references name) ms" by simp
  from Cons.prems have le: "length (filter (\<lambda>s. trim (s_name s) = name) (supports m)) \<le> 1"
    by simp
  show ?case
  proof (cases "filter (\<lambda>s. trim (s_name s) = name) (supports m)")
    case Nil
    then show ?thesis using references_filter[of name m] by (simp add: links_Cons ih)
  next
    case (Cons s ss)
    with le have "ss = []" by simp
    with Cons show ?thesis using references_filter[of name m] by (simp add: links_Cons ih)
  qed
qed

lemma maxImpactOf_nonneg:
  assumes "\<forall>ev \<in> set evts. 0 \<le> orElse (parseInt (impact ev)) 0"
  shows "0 \<le> maxImpactOf mid evts"
proof (cases "impactsOf mid evts = []")
  case True
  then show ?thesis by (simp add: maxImpactOf_def)
next
  case False
  then obtain x where x: "x \<in> set (impactsOf mid evts)" by (cases "impactsOf mid evts") auto
  then have "0 \<le> x" using assms by (auto simp: impactsOf_def)
  moreover have "x \<le> Max (set (impactsOf mid evts))" using x by simp
  ultimately show ?thesis using False by (simp add: maxImpactOf_def)
qed

text \<open>
  C9, as amended.  The impact of a mission in the Atelier 1 network is the largest impact
  among the events whose missionId is the mission's id, and 0 when it has none.  For a
  support name borne by some support entry, the statistics of the name are: as degree,
  the number of support entries of that name over all missions, which is the number of
  missions referencing the support provided no mission lists the name twice; as
  maxImpact, the largest mission impact among the missions referencing the support, and
  at least 0, which is that largest impact itself when no event impact is negative.
\<close>

theorem C9_support_stats:
  assumes "name \<noteq> []"
  shows "missionImpact (impactByMission evts) mid = maxImpactOf mid evts
   \<and> supportStats msns evts name =
       (if filter (references name) msns = [] then None
        else Some \<lparr> degree = length (links name msns),
               maxImpact = Max (set (0 # map (\<lambda>m. maxImpactOf (m_id m) evts)
                                         (filter (references name) msns))) \<rparr>)
   \<and> ((\<forall>m \<in> set msns. length (filter (\<lambda>s. trim (s_name s) = name) (supports m)) \<le> 1)
        \<longrightarrow> length (links name msns) = length (filter (references name) msns))
   \<and> ((\<forall>ev \<in> set evts. 0 \<le> orElse (parseInt (impact ev)) 0)
        \<and> filter (references name) msns \<noteq> []
        \<longrightarrow> Max (set (0 # map (\<lambda>m. maxImpactOf (m_id m) evts)
                               (filter (references name) msns)))
            = Max (set (map (\<lambda>m. maxImpactOf (m_id m) evts)
                           (filter (references name) msns))))"
proof -
  define refs where "refs = filter (references name) msns"
  let ?f = "\<lambda>m. maxImpactOf (m_id m) evts"
  have e: "links name msns = [] \<longleftrightarrow> refs = []"
    using set_links[of name msns] unfolding refs_def by (metis set_empty)
  have s: "set (map ?f (links name msns)) = set (map ?f refs)"
    using set_links[of name msns] unfolding refs_def by (metis set_map)
  have stats: "supportStats msns evts name =
       (if refs = [] then None
        else Some \<lparr> degree = length (links name msns),
               maxImpact = Max (set (0 # map ?f refs)) \<rparr>)"
    using s e by (simp add: supportStats_links[OF assms])
  have once: "(\<forall>m \<in> set msns. length (filter (\<lambda>s. trim (s_name s) = name) (supports m)) \<le> 1)
        \<longrightarrow> length (links name msns) = length refs"
    unfolding refs_def by (simp add: links_once)
  have floor: "(\<forall>ev \<in> set evts. 0 \<le> orElse (parseInt (impact ev)) 0) \<and> refs \<noteq> []
        \<longrightarrow> Max (set (0 # map ?f refs)) = Max (set (map ?f refs))"
  proof (intro impI, elim conjE)
    assume nn: "\<forall>ev \<in> set evts. 0 \<le> orElse (parseInt (impact ev)) 0" and ne: "refs \<noteq> []"
    then obtain m ms where m: "refs = m # ms" by (cases refs) auto
    have "0 \<le> ?f m" using maxImpactOf_nonneg[OF nn] by simp
    moreover have "?f m \<le> Max (set (map ?f refs))" using m by simp
    ultimately have "0 \<le> Max (set (map ?f refs))" by linarith
    moreover have "set (map ?f refs) \<noteq> {}" using ne by simp
    ultimately show "Max (set (0 # map ?f refs)) = Max (set (map ?f refs))"
      by (simp add: max_def)
  qed
  show ?thesis using missionImpact_spec stats once floor unfolding refs_def by blast
qed

theorem C9_support_stats_witness:
  "ascii ''S1'' \<noteq> []
   \<and> missionImpact (impactByMission [event_E1]) (Some (ascii ''M1'')) = 3
   \<and> supportStats [mission_M1] [event_E1] (ascii ''S1'') = Some \<lparr> degree = 1, maxImpact = 3 \<rparr>"
proof -
  have n: "ascii ''S1'' \<noteq> []" by (simp add: ascii_def)
  have t: "trim (ascii ''S1'') = ascii ''S1''" by (simp add: trim_def ascii_def isSpace_def)
  have r: "filter (references (ascii ''S1'')) [mission_M1] = [mission_M1]"
    by (simp add: references_def mission_M1_def support_S1_def t)
  have l: "links (ascii ''S1'') [mission_M1] = [mission_M1]"
    by (simp add: links_def mission_M1_def support_S1_def t)
  have i: "maxImpactOf (Some (ascii ''M1'')) [event_E1] = 3"
    by (simp add: maxImpactOf_def impactsOf_def event_E1_def parseInt_JNum)
  have m: "m_id mission_M1 = Some (ascii ''M1'')" by (simp add: mission_M1_def)
  have rr: "references (ascii ''S1'') mission_M1"
    by (simp add: references_def mission_M1_def support_S1_def t)
  from C9_support_stats [OF n, of "[event_E1]" "Some (ascii ''M1'')" "[mission_M1]"]
  show ?thesis using n by (simp add: rr l i m)
qed

text \<open>
  The claim as first stated, with the degree counting missions, fails on a mission that
  lists the support S1 twice: one mission references S1, and the degree is 2.
\<close>

theorem C9_degree_counterexample:
  "degree (the (supportStats [mission_twice] [] (ascii ''S1'')))
     \<noteq> length (filter (references (ascii ''S1'')) [mission_twice])"
proof -
  have n: "ascii ''S1'' \<noteq> []" by (simp add: ascii_def)
  have t: "trim (ascii ''S1'') = ascii ''S1''" by (simp add: trim_def ascii_def isSpace_def)
  have l: "links (ascii ''S1'') [mission_twice] = [mission_twice, mission_twice]"
    by (simp add: links_def mission_twice_def support_S1_def t)
  have r: "filter (references (ascii ''S1'')) [mission_twice] = [mission_twice]"
    by (simp add: references_def mission_twice_def support_S1_def t)
  show ?thesis by (simp add: supportStats_links[OF n] l r)
qed

subsection \<open>The GAP action import list\<close>

lemma nfdUnit_below: "c < 192 \<Longrightarrow> nfdUnit c = [c]"
  by (simp add: nfdUnit_def latin1Decomp_def)

lemma isSpace_latin1: "c < 256 \<Longrightarrow> isSpace c = (c \<in> {9, 10, 11, 12, 13, 32, 160})"
  by (auto simp: isSpace_def)

lemma isDiacritic_latin1: "c < 256 \<Longrightarrow> isDiacritic c = (c \<in> {94, 96, 168, 175, 180, 183, 184})"
  by (auto simp: isDiacritic_def)

lemma low_upper: assumes "65 \<le> c" "c \<le> 90" shows "codeUnit c = spec_unit c"
proof -
  have l: "lowerUnit c = c + 32" using assms by (simp add: lowerUnit_def)
  have n: "nfdUnit (c + 32) = [c + 32]" using assms by (intro nfdUnit_below) simp
  have d: "\<not> isDiacritic (c + 32)" "\<not> isSpace (c + 32)"
    using assms by (auto simp: isDiacritic_def isSpace_def)
  have s: "spec_unit c = [c + 32]" using assms by (auto simp: spec_unit_def spec_letter_def)
  show ?thesis by (simp add: codeUnit_def l n d s)
qed

lemma low_other: assumes "c < 65 \<or> 90 < c" "c < 192" shows "codeUnit c = spec_unit c"
proof -
  have l: "lowerUnit c = c" using assms by (auto simp: lowerUnit_def)
  have n: "nfdUnit c = [c]" using assms by (intro nfdUnit_below) simp
  have c256: "c < 256" using assms by simp
  have s: "spec_letter c = c"
    using assms by (auto simp: spec_letter_def)
  have "codeUnit c = (if isSpace c \<or> isDiacritic c then [] else [spec_letter c])"
    by (simp add: codeUnit_def l n s)
  also have "\<dots> = spec_unit c"
    by (simp only: isSpace_latin1[OF c256] isDiacritic_latin1[OF c256] spec_unit_def)
  finally show ?thesis .
qed

lemma grp: "n \<le> c \<Longrightarrow> c < n + 8 \<Longrightarrow>
   c = n \<or> c = n + 1 \<or> c = n + 2 \<or> c = n + 3 \<or> c = n + 4 \<or> c = n + 5 \<or> c = n + 6 \<or> c = (n::nat) + 7"
  by arith

lemmas unit_eval = codeUnit_def lowerUnit_def nfdUnit_def latin1Decomp_def isSpace_def
  isDiacritic_def spec_unit_def spec_letter_def

lemma g192: assumes "192 \<le> c" "c < 200" shows "codeUnit c = spec_unit c"
proof -
  from grp[of 192 c] assms have "c = 192 \<or> c = 193 \<or> c = 194 \<or> c = 195 \<or> c = 196 \<or> c = 197 \<or> c = 198 \<or> c = 199"
    by simp
  then show ?thesis
    by (elim disjE) (simp_all add: unit_eval)
qed

lemma g200: assumes "200 \<le> c" "c < 208" shows "codeUnit c = spec_unit c"
proof -
  from grp[of 200 c] assms have "c = 200 \<or> c = 201 \<or> c = 202 \<or> c = 203 \<or> c = 204 \<or> c = 205 \<or> c = 206 \<or> c = 207"
    by simp
  then show ?thesis
    by (elim disjE) (simp_all add: unit_eval)
qed

lemma g208: assumes "208 \<le> c" "c < 216" shows "codeUnit c = spec_unit c"
proof -
  from grp[of 208 c] assms have "c = 208 \<or> c = 209 \<or> c = 210 \<or> c = 211 \<or> c = 212 \<or> c = 213 \<or> c = 214 \<or> c = 215"
    by simp
  then show ?thesis
    by (elim disjE) (simp_all add: unit_eval)
qed

lemma g216: assumes "216 \<le> c" "c < 224" shows "codeUnit c = spec_unit c"
proof -
  from grp[of 216 c] assms have "c = 216 \<or> c = 217 \<or> c = 218 \<or> c = 219 \<or> c = 220 \<or> c = 221 \<or> c = 222 \<or> c = 223"
    by simp
  then show ?thesis
    by (elim disjE) (simp_all add: unit_eval)
qed

lemma g224: assumes "224 \<le> c" "c < 232" shows "codeUnit c = spec_unit c"
proof -
  from grp[of 224 c] assms have "c = 224 \<or> c = 225 \<or> c = 226 \<or> c = 227 \<or> c = 228 \<or> c = 229 \<or> c = 230 \<or> c = 231"
    by simp
  then show ?thesis
    by (elim disjE) (simp_all add: unit_eval)
qed

lemma g232: assumes "232 \<le> c" "c < 240" shows "codeUnit c = spec_unit c"
proof -
  from grp[of 232 c] assms have "c = 232 \<or> c = 233 \<or> c = 234 \<or> c = 235 \<or> c = 236 \<or> c = 237 \<or> c = 238 \<or> c = 239"
    by simp
  then show ?thesis
    by (elim disjE) (simp_all add: unit_eval)
qed

lemma g240: assumes "240 \<le> c" "c < 248" shows "codeUnit c = spec_unit c"
proof -
  from grp[of 240 c] assms have "c = 240 \<or> c = 241 \<or> c = 242 \<or> c = 243 \<or> c = 244 \<or> c = 245 \<or> c = 246 \<or> c = 247"
    by simp
  then show ?thesis
    by (elim disjE) (simp_all add: unit_eval)
qed

lemma g248: assumes "248 \<le> c" "c < 256" shows "codeUnit c = spec_unit c"
proof -
  from grp[of 248 c] assms have "c = 248 \<or> c = 249 \<or> c = 250 \<or> c = 251 \<or> c = 252 \<or> c = 253 \<or> c = 254 \<or> c = 255"
    by simp
  then show ?thesis
    by (elim disjE) (simp_all add: unit_eval)
qed

lemma codeUnit_spec: assumes "c < 256" shows "codeUnit c = spec_unit c"
proof -
  consider "65 \<le> c \<and> c \<le> 90" | "(c < 65 \<or> 90 < c) \<and> c < 192"
    | "192 \<le> c \<and> c < 200" | "200 \<le> c \<and> c < 208" | "208 \<le> c \<and> c < 216"
    | "216 \<le> c \<and> c < 224" | "224 \<le> c \<and> c < 232" | "232 \<le> c \<and> c < 240"
    | "240 \<le> c \<and> c < 248" | "248 \<le> c \<and> c < 256"
    using assms by linarith
  then show ?thesis
    by cases (simp_all add: low_upper low_other g192 g200 g208 g216 g224 g232 g240 g248)
qed

lemma applicationPrefix_codeUnit:
  "applicationPrefix a = concat (map codeUnit a)"
  by (induction a)
     (simp_all add: applicationPrefix_def toLowerCase_def normalizeNFD_def codeUnit_def)

lemma applicationPrefix_spec:
  assumes "list_all (\<lambda>c. c < 256) a"
  shows "applicationPrefix a = spec_normalized a"
proof -
  have "map codeUnit a = map spec_unit a"
    using assms by (induction a) (simp_all add: codeUnit_spec)
  then show ?thesis by (simp only: applicationPrefix_codeUnit spec_normalized_def)
qed

lemma included_spec:
  assumes "latin1Text (orEmpty (application req))"
  shows "included req = (\<not> spec_excluded req)"
  using assms
  by (cases "orEmpty (application req)")
     (simp_all add: included_def spec_excluded_def applicationPrefix_spec)

lemma latin1Text_isString: "latin1Text v \<Longrightarrow> isString v"
  by (cases v) simp_all

lemma filter_included_spec:
  assumes "\<forall>req \<in> set reqs. latin1Text (orEmpty (application req))"
  shows "filter included reqs = filter (\<lambda>req. \<not> spec_excluded req) reqs"
  using assms by (intro filter_cong) (simp_all add: included_spec)

lemmas spec_eval = spec_normalized_def spec_unit_def spec_letter_def ascii_def

lemma spec_applique: "spec_normalized st_applique = ascii ''applique''"
  by (simp add: spec_eval st_applique_def)

lemma spec_partiel: "spec_normalized st_partiel = ascii ''partiellementapplique''"
  by (simp add: spec_eval st_partiel_def)

lemma spec_non_applique: "spec_normalized st_non_applique = ascii ''nonapplique''"
  by (simp add: spec_eval st_non_applique_def)

lemma spec_non_applicable: "spec_normalized st_non_applicable = ascii ''nonapplicable''"
  by (simp add: spec_eval st_non_applicable_def)

lemma spec_grave: "spec_normalized st_grave = ascii ''applique''"
  by (simp add: spec_eval st_grave_def)

lemma spec_capitals: "spec_normalized st_capitals = ascii ''appliquee''"
  by (simp add: spec_eval st_capitals_def)

lemma spec_deja: "spec_normalized st_deja = ascii ''dejaapplique''"
  by (simp add: spec_eval st_deja_def)

lemma st_latin1:
  "list_all (\<lambda>c. c < 256) st_applique \<and> st_applique \<noteq> []"
  "list_all (\<lambda>c. c < 256) st_partiel \<and> st_partiel \<noteq> []"
  "list_all (\<lambda>c. c < 256) st_non_applique \<and> st_non_applique \<noteq> []"
  "list_all (\<lambda>c. c < 256) st_non_applicable \<and> st_non_applicable \<noteq> []"
  "list_all (\<lambda>c. c < 256) st_grave \<and> st_grave \<noteq> []"
  "list_all (\<lambda>c. c < 256) st_capitals \<and> st_capitals \<noteq> []"
  "list_all (\<lambda>c. c < 256) st_deja \<and> st_deja \<noteq> []"
  by (simp_all add: st_applique_def st_partiel_def st_non_applique_def st_non_applicable_def
      st_grave_def st_capitals_def st_deja_def ascii_def)

lemma spec_excluded_req_with:
  "a \<noteq> [] \<Longrightarrow> spec_excluded (req_with i a) = startsWith (spec_normalized a) (ascii ''applique'')"
  by (simp add: spec_excluded_def req_with_def orEmpty_def)

lemma spec_excluded_statuses:
  "spec_excluded (req_with i st_applique)"
  "\<not> spec_excluded (req_with i st_partiel)"
  "\<not> spec_excluded (req_with i st_non_applique)"
  "\<not> spec_excluded (req_with i st_non_applicable)"
  "spec_excluded (req_with i st_grave)"
  "spec_excluded (req_with i st_capitals)"
  "\<not> spec_excluded (req_with i st_deja)"
  using st_latin1
  by (simp_all add: spec_excluded_req_with spec_applique spec_partiel spec_non_applique
      spec_non_applicable spec_grave spec_capitals spec_deja startsWith_def ascii_def)

lemma gapItem_string:
  assumes "isString (orEmpty (application req))"
  shows "\<exists>it. gapItem u req = Some it
     \<and> (included req \<longrightarrow> (\<exists>x. it = Some x \<and> i_label x = labelOf req
            \<and> i_desc x = orEmpty (g_description req) \<and> i_extra x = orEmpty (application req)
            \<and> (\<not> missingId (g_id req) \<longrightarrow> Some (i_id x) = g_id req)))
     \<and> (\<not> included req \<longrightarrow> it = None)"
  using assms
  by (cases "orEmpty (application req)")
     (auto simp: gapItem_def included_def missingId_def split: option.splits)

lemma gapItems_filter:
  assumes "\<forall>req \<in> set reqs. isString (orEmpty (application req))"
  shows "\<exists>items. gapItems us i reqs = Some items
     \<and> map (\<lambda>it. (i_label it, i_desc it, i_extra it)) items
         = map (\<lambda>req. (labelOf req, orEmpty (g_description req), orEmpty (application req)))
             (filter included reqs)
     \<and> ((\<forall>req \<in> set reqs. \<not> missingId (g_id req))
          \<longrightarrow> map (\<lambda>it. Some (i_id it)) items = map g_id (filter included reqs))"
  using assms
proof (induction reqs arbitrary: i)
  case Nil
  then show ?case by simp
next
  case (Cons req reqs)
  from Cons.prems have s: "isString (orEmpty (application req))" by simp
  from Cons.prems have "\<forall>r \<in> set reqs. isString (orEmpty (application r))" by simp
  from Cons.IH[OF this, of "Suc i"] obtain items where
    items: "gapItems us (Suc i) reqs = Some items"
      "map (\<lambda>it. (i_label it, i_desc it, i_extra it)) items
         = map (\<lambda>req. (labelOf req, orEmpty (g_description req), orEmpty (application req)))
             (filter included reqs)"
      "(\<forall>req \<in> set reqs. \<not> missingId (g_id req))
          \<longrightarrow> map (\<lambda>it. Some (i_id it)) items = map g_id (filter included reqs)"
    by blast
  from gapItem_string[OF s, of "us i"] obtain it where
    it: "gapItem (us i) req = Some it"
      "included req \<longrightarrow> (\<exists>x. it = Some x \<and> i_label x = labelOf req
            \<and> i_desc x = orEmpty (g_description req) \<and> i_extra x = orEmpty (application req)
            \<and> (\<not> missingId (g_id req) \<longrightarrow> Some (i_id x) = g_id req))"
      "\<not> included req \<longrightarrow> it = None"
    by blast
  show ?case
  proof (cases "included req")
    case True
    with it obtain x where x: "it = Some x" "i_label x = labelOf req"
        "i_desc x = orEmpty (g_description req)" "i_extra x = orEmpty (application req)"
        "\<not> missingId (g_id req) \<longrightarrow> Some (i_id x) = g_id req"
      by blast
    show ?thesis using True it(1) items x by simp
  next
    case False
    with it have "it = None" by simp
    then show ?thesis using False it(1) items by simp
  qed
qed

lemma gapItems_spec:
  assumes "\<forall>req \<in> set reqs. latin1Text (orEmpty (application req))"
  shows "\<exists>items. gapItems us i reqs = Some items
     \<and> map (\<lambda>it. (i_label it, i_desc it, i_extra it)) items
         = map (\<lambda>req. (labelOf req, orEmpty (g_description req), orEmpty (application req)))
             (filter (\<lambda>req. \<not> spec_excluded req) reqs)
     \<and> ((\<forall>req \<in> set reqs. \<not> missingId (g_id req))
          \<longrightarrow> map (\<lambda>it. Some (i_id it)) items
              = map g_id (filter (\<lambda>req. \<not> spec_excluded req) reqs))"
proof -
  from assms have s: "\<forall>req \<in> set reqs. isString (orEmpty (application req))"
    by (simp add: latin1Text_isString)
  from gapItems_filter[OF s, of us i] show ?thesis
    by (simp only: filter_included_spec[OF assms])
qed

lemma gapItems_single:
  assumes "list_all (\<lambda>c. c < 256) a \<and> a \<noteq> []"
  shows "map_option (map i_extra) (openImportModalGap us [req_with i a])
     = Some (if spec_excluded (req_with i a) then [] else [JStr a])"
proof -
  have l: "\<forall>req \<in> set [req_with i a]. latin1Text (orEmpty (application req))"
    using assms by (simp add: req_with_def orEmpty_def)
  have ap: "orEmpty (application (req_with i a)) = JStr a"
    using assms by (simp add: req_with_def orEmpty_def)
  from gapItems_spec[OF l, of us 0] obtain items where
    items: "gapItems us 0 [req_with i a] = Some items"
      "map (\<lambda>it. (i_label it, i_desc it, i_extra it)) items
         = map (\<lambda>req. (labelOf req, orEmpty (g_description req), orEmpty (application req)))
             (filter (\<lambda>req. \<not> spec_excluded req) [req_with i a])"
    by blast
  from items(2) have "map snd (map snd (map (\<lambda>it. (i_label it, i_desc it, i_extra it)) items))
      = map snd (map snd (map (\<lambda>req. (labelOf req, orEmpty (g_description req), orEmpty (application req)))
             (filter (\<lambda>req. \<not> spec_excluded req) [req_with i a])))"
    by (simp only: )
  then have "map i_extra items = (if spec_excluded (req_with i a) then [] else [JStr a])"
    using ap by (simp add: comp_def)
  then show ?thesis using items(1) by (simp add: openImportModalGap_def)
qed

text \<open>
  C6.  For requirements whose application is absent or a string of characters from U+0000
  to U+00FF, the range on which the Unicode operations are given here, the candidate list
  of the GAP action import holds, in order, exactly the requirements that the
  specification does not exclude, each with its label, description and application, and
  with its own id when it has one; the excluded ones are those whose application, lower-cased
  and with diacritics and white space removed in the specification's character-by-character
  sense, begins with \<open>applique\<close>.  A requirement \<open>Applique\<close> (e acute) is excluded;
  \<open>Partiellement applique\<close>, \<open>Non applique\<close> (both e acute) and \<open>Non applicable\<close> are
  included.  So is \<open>Deja applique\<close>, while an \<open>Applique\<close> written with A grave, and one in
  capitals after a no-break space and with a space inside, are excluded.
\<close>

theorem C6_gap_import_filter:
  assumes "\<forall>req \<in> set reqs. latin1Text (orEmpty (application req))"
  shows "\<exists>items. openImportModalGap us reqs = Some items
     \<and> map (\<lambda>it. (i_label it, i_desc it, i_extra it)) items
         = map (\<lambda>req. (labelOf req, orEmpty (g_description req), orEmpty (application req)))
             (filter (\<lambda>req. \<not> spec_excluded req) reqs)
     \<and> ((\<forall>req \<in> set reqs. \<not> missingId (g_id req))
          \<longrightarrow> map (\<lambda>it. Some (i_id it)) items
              = map g_id (filter (\<lambda>req. \<not> spec_excluded req) reqs))
     \<and> map_option (map i_extra) (openImportModalGap us [req_with i st_applique]) = Some []
     \<and> map_option (map i_extra) (openImportModalGap us [req_with i st_partiel])
         = Some [JStr st_partiel]
     \<and> map_option (map i_extra) (openImportModalGap us [req_with i st_non_applique])
         = Some [JStr st_non_applique]
     \<and> map_option (map i_extra) (openImportModalGap us [req_with i st_non_applicable])
         = Some [JStr st_non_applicable]
     \<and> map_option (map i_extra) (openImportModalGap us [req_with i st_grave]) = Some []
     \<and> map_option (map i_extra) (openImportModalGap us [req_with i st_capitals]) = Some []
     \<and> map_option (map i_extra) (openImportModalGap us [req_with i st_deja])
         = Some [JStr st_deja]"
proof -
  note lit = gapItems_single[OF st_latin1(1), of us i] gapItems_single[OF st_latin1(2), of us i]
    gapItems_single[OF st_latin1(3), of us i] gapItems_single[OF st_latin1(4), of us i]
    gapItems_single[OF st_latin1(5), of us i] gapItems_single[OF st_latin1(6), of us i]
    gapItems_single[OF st_latin1(7), of us i]
  from gapItems_spec[OF assms, of us 0] lit spec_excluded_statuses[of i]
  show ?thesis unfolding openImportModalGap_def by simp
qed

theorem C6_gap_import_witness:
  "openImportModalGap (\<lambda>n. ascii ''id-new'')
      [req_with (ascii ''r1'') st_applique, req_with (ascii ''r2'') st_partiel,
       req_with (ascii ''r3'') st_non_applique, req_with (ascii ''r4'') st_non_applicable,
       req_with (ascii ''r5'') st_grave]
    \<noteq> None
   \<and> map i_id (the (openImportModalGap (\<lambda>n. ascii ''id-new'')
      [req_with (ascii ''r1'') st_applique, req_with (ascii ''r2'') st_partiel,
       req_with (ascii ''r3'') st_non_applique, req_with (ascii ''r4'') st_non_applicable,
       req_with (ascii ''r5'') st_grave]))
     = [ascii ''r2'', ascii ''r3'', ascii ''r4'']"
proof -
  let ?reqs = "[req_with (ascii ''r1'') st_applique, req_with (ascii ''r2'') st_partiel,
       req_with (ascii ''r3'') st_non_applique, req_with (ascii ''r4'') st_non_applicable,
       req_with (ascii ''r5'') st_grave]"
  have s: "\<forall>req \<in> set ?reqs. latin1Text (orEmpty (application req))"
    using st_latin1 by (simp add: req_with_def orEmpty_def)
  have m: "\<forall>req \<in> set ?reqs. \<not> missingId (g_id req)"
    by (simp add: req_with_def missingId_def ascii_def)
  have f: "filter (\<lambda>req. \<not> spec_excluded req) ?reqs = [req_with (ascii ''r2'') st_partiel,
       req_with (ascii ''r3'') st_non_applique, req_with (ascii ''r4'') st_non_applicable]"
    by (simp add: spec_excluded_statuses)
  from C6_gap_import_filter [OF s, of "\<lambda>n. ascii ''id-new''" "ascii ''r0''"] m f
  obtain items where items: "openImportModalGap (\<lambda>n. ascii ''id-new'') ?reqs = Some items"
      "map (\<lambda>it. Some (i_id it)) items = map g_id [req_with (ascii ''r2'') st_partiel,
       req_with (ascii ''r3'') st_non_applique, req_with (ascii ''r4'') st_non_applicable]"
    by auto
  from items(2) have "map (\<lambda>it. Some (i_id it)) items
      = map Some [ascii ''r2'', ascii ''r3'', ascii ''r4'']"
    by (simp add: req_with_def)
  then have "map Some (map i_id items) = map Some [ascii ''r2'', ascii ''r3'', ascii ''r4'']"
    by (simp add: comp_def)
  then have "map i_id items = [ascii ''r2'', ascii ''r3'', ascii ''r4'']"
    by (simp only: inj_map_eq_map[OF inj_Some])
  with items(1) show ?thesis by simp
qed

subsection \<open>Deleting a mission\<close>

text \<open>
  C2.  Deleting the mission of a row removes that mission and, when the analysis has
  events, leaves exactly the events whose missionId differs from the mission's id, in their
  order: the events removed are the N events whose missionId equals it, and none is removed
  when no event bears it.  The analysis is saved after both changes, so memory and
  \<open>localStorage\<close> hold the same missions and events; every other collection is as before.
\<close>

theorem C2_delete_mission_cascade:
  assumes "idx < length (missions (current w))"
      and "events (current w) = Some evs"
      and "mid = m_id (missions (current w) ! idx)"
  shows "\<exists>w'. deleteMissionClick idx w = Some w'
     \<and> saved w' = current w'
     \<and> missions (current w') = take idx (missions (current w)) @ drop (Suc idx) (missions (current w))
     \<and> events (current w') = Some (filter (\<lambda>ev. missionId ev \<noteq> mid) evs)
     \<and> length evs = length (filter (\<lambda>ev. missionId ev \<noteq> mid) evs)
                      + length (filter (\<lambda>ev. missionId ev = mid) evs)
     \<and> (filter (\<lambda>ev. missionId ev = mid) evs = [] \<longrightarrow> events (current w') = Some evs)
     \<and> gap (current w') = gap (current w)
     \<and> srov (current w') = srov (current w)
     \<and> ppc (current w') = ppc (current w)
     \<and> so (current w') = so (current w)
     \<and> others (current w') = others (current w)"
proof -
  have len: "length evs = length (filter (\<lambda>ev. missionId ev \<noteq> mid) evs)
                      + length (filter (\<lambda>ev. missionId ev = mid) evs)"
    using sum_length_filter_compl[of "\<lambda>ev. missionId ev = mid" evs] by simp
  have none: "filter (\<lambda>ev. missionId ev = mid) evs = []
      \<longrightarrow> filter (\<lambda>ev. missionId ev \<noteq> mid) evs = evs"
    by (simp add: filter_empty_conv)
  show ?thesis
    using assms len none
    by (simp add: deleteMissionClick_def Let_def saveAnalyses_def splice1_def)
qed

theorem C2_delete_mission_witness:
  "deleteMissionClick 0 (saveAnalyses data_example)
     = Some (saveAnalyses (data_example\<lparr> missions := [mission_M2], events := Some [event_E2] \<rparr>))"
proof -
  have i: "0 < length (missions (current (saveAnalyses data_example)))"
    by (simp add: saveAnalyses_def data_example_def)
  have e: "events (current (saveAnalyses data_example)) = Some [event_E1, event_E2, event_E3]"
    by (simp add: saveAnalyses_def data_example_def)
  have m: "Some (ascii ''M1'') = m_id (missions (current (saveAnalyses data_example)) ! 0)"
    by (simp add: saveAnalyses_def data_example_def mission_M1_def)
  have k: "missionId event_E1 = Some (ascii ''M1'')" "missionId event_E2 \<noteq> Some (ascii ''M1'')"
      "missionId event_E3 = Some (ascii ''M1'')"
    by (simp_all add: event_E1_def event_E2_def event_E3_def ascii_def)
  from C2_delete_mission_cascade [OF i e m] obtain w' where
    w': "deleteMissionClick 0 (saveAnalyses data_example) = Some w'"
      "saved w' = current w'"
      "missions (current w') = [mission_M2]"
      "events (current w') = Some [event_E2]"
      "gap (current w') = []" "srov (current w') = []" "ppc (current w') = []"
      "so (current w') = [scenario_S]" "others (current w') = JNull"
    by (auto simp: k saveAnalyses_def data_example_def)
  have "current w' = data_example\<lparr> missions := [mission_M2], events := Some [event_E2] \<rparr>"
    using w'(3-9) by (simp add: data_example_def)
  with w'(1,2) show ?thesis by (simp add: saveAnalyses_def)
qed

subsection \<open>Adding risks to an operational scenario\<close>

lemma pushRisk_levels:
  "vraisemblance (pushRisk name s) = vraisemblance s \<and> gravite (pushRisk name s) = gravite s"
  by (simp add: pushRisk_def)

lemma fold_pushRisk:
  "fold pushRisk names s = s\<lparr> risks := risks s @ map (riskFrom s) names \<rparr>"
proof (induction names arbitrary: s)
  case Nil
  then show ?case by simp
next
  case (Cons n names)
  have "riskFrom (pushRisk n s) = riskFrom s"
    by (rule ext) (simp add: riskFrom_def pushRisk_def)
  then show ?case by (simp add: Cons.IH) (simp add: pushRisk_def riskFrom_def)
qed

text \<open>
  C10.  With the modal open on the scenario at position \<open>i\<close>, every way of adding risks
  stores them with the scenario's own levels at that moment: the manual entry appends one
  risk bearing the trimmed name, the applied selection appends one risk per selected name,
  in order, and \<open>addRiskToScenario\<close> appends one risk for its argument; each new risk has
  the vraisemblance and the gravite of the scenario, the scenario's earlier risks and levels
  are kept, the other scenarios are untouched, and the result is saved.
\<close>

theorem C10_risks_copy_scenario_levels:
  assumes "riskModalTarget m = Some i"
      and "i < length (so (current w))"
      and "s = so (current w) ! i"
  shows "so (current (fst (addRiskToScenario name (w, m))))
           = (so (current w))[i := s\<lparr> risks := risks s @ [riskFrom s name] \<rparr>]
     \<and> saved (fst (addRiskToScenario name (w, m))) = current (fst (addRiskToScenario name (w, m)))
     \<and> (trim input \<noteq> [] \<longrightarrow>
          so (current (fst (manualClick input (w, m))))
            = (so (current w))[i := s\<lparr> risks := risks s @ [riskFrom s (trim input)] \<rparr>]
          \<and> saved (fst (manualClick input (w, m))) = current (fst (manualClick input (w, m))))
     \<and> (selectedRiskNames m \<noteq> [] \<longrightarrow>
          so (current (fst (applyClick (w, m))))
            = (so (current w))[i := s\<lparr> risks := risks s @ map (riskFrom s) (selectedRiskNames m) \<rparr>]
          \<and> saved (fst (applyClick (w, m))) = current (fst (applyClick (w, m))))
     \<and> r_vraisemblance (riskFrom s name) = vraisemblance s
     \<and> r_gravite (riskFrom s name) = gravite s"
  using assms
  by (simp add: addRiskToScenario_def manualClick_def applyClick_def Let_def saveAnalyses_def
      fold_pushRisk)
     (simp add: pushRisk_def riskFrom_def)

theorem C10_risks_witness:
  "risks (so (current (fst (applyClick (saveAnalyses data_example,
        toggleRisk (ascii ''T1078'') (toggleRisk (ascii ''T1566'') (openRiskModal 0)))))) ! 0)
     = [\<lparr> r_name = ascii ''T1566'', r_vraisemblance = JNum 3, r_gravite = JNum 4 \<rparr>,
        \<lparr> r_name = ascii ''T1078'', r_vraisemblance = JNum 3, r_gravite = JNum 4 \<rparr>]
   \<and> risks (so (current (fst (manualClick (ascii '' Phishing '') (saveAnalyses data_example,
        openRiskModal 0)))) ! 0)
     = [\<lparr> r_name = ascii ''Phishing'', r_vraisemblance = JNum 3, r_gravite = JNum 4 \<rparr>]"
proof -
  let ?w = "saveAnalyses data_example"
  let ?m = "toggleRisk (ascii ''T1078'') (toggleRisk (ascii ''T1566'') (openRiskModal 0))"
  have sel: "selectedRiskNames ?m = [ascii ''T1566'', ascii ''T1078'']"
    by (simp add: toggleRisk_def openRiskModal_def ascii_def)
  have t: "riskModalTarget ?m = Some 0" "riskModalTarget (openRiskModal 0) = Some 0"
    by (simp_all add: toggleRisk_def openRiskModal_def)
  have l: "0 < length (so (current ?w))"
    by (simp add: saveAnalyses_def data_example_def)
  have s: "scenario_S = so (current ?w) ! 0"
    by (simp add: saveAnalyses_def data_example_def)
  have tr: "trim (ascii '' Phishing '') = ascii ''Phishing''"
    by (simp add: trim_def ascii_def isSpace_def)
  have so: "so (current ?w) = [scenario_S]"
    by (simp add: saveAnalyses_def data_example_def)
  from C10_risks_copy_scenario_levels [OF t(1) l s, of "[]" "[]"]
       C10_risks_copy_scenario_levels [OF t(2) l s, of "[]" "ascii '' Phishing ''"]
  show ?thesis
    by (simp add: sel tr so riskFrom_def scenario_S_def) (simp add: ascii_def)
qed

subsection \<open>Import\<close>

text \<open>
  A file that does not parse, and a GAP document that parses to anything but an array,
  end the GAP import with an alert and the state it started from.  The import of analyses
  does nothing before its \<open>catch\<close> when the file does not parse.
\<close>

lemma gapImportFile_rejects:
  "gapImportFile pg us (SyntaxError msg) w
       = Rejected (ascii ''Erreur lors de la lecture du fichier'' @ [160] @ ascii '': '' @ msg) w
   \<and> (\<not> isArray json \<longrightarrow>
        gapImportFile pg us (Parsed json) w
          = Rejected (ascii ''Le fichier doit contenir un tableau d'' @ [39] @ ascii ''exigences.'') w)
   \<and> importBegin (SyntaxError msg) st = None"
  by (cases json) (simp_all add: gapImportFile_def importBegin_def)

text \<open>
  C7, at documents the code mishandles.  The GAP document \<open>[{"titre": "MFA"}, null]\<close>
  parses and is an array, so it passes both checks.  Its first element is pushed onto the
  requirements of the analysis in memory, reading the second throws, and the handler ends
  in its \<open>catch\<close>, with the alert: on any page, the analysis in memory has gained a
  requirement from a document that was refused, while the saved image has not; nothing
  takes the requirement back.  On the page of the GAP analysis the document
  \<open>[{"application": 5}]\<close> is pushed and saved in full before \<open>updateGapChart\<close> throws: the
  alert reports an error for an import that was applied and saved.
\<close>

theorem C7_partial_import_applied:
  "gapImportFile pg (\<lambda>k. uid (r k))
       (Parsed (JArr [JObj [(ascii ''titre'', JStr (ascii ''MFA''))], JNull]))
       (Some (saveAnalyses data_example))
     = Failed (Some \<lparr> current = data_example\<lparr> gap := [req_mfa (uid (r 0))] \<rparr>,
                        saved = data_example \<rparr>)
   \<and> gap data_example = []
   \<and> gapImportFile gap_page (\<lambda>k. uid (r k))
       (Parsed (JArr [JObj [(ascii ''application'', JNum 5)]]))
       (Some (saveAnalyses data_example))
     = Failed (Some \<lparr> current = data_example\<lparr> gap := [req_five (uid (r 0))] \<rparr>,
                        saved = data_example\<lparr> gap := [req_five (uid (r 0))] \<rparr> \<rparr>)"
proof -
  let ?us = "\<lambda>k. uid (r k)"
  have r1: "reqOf (?us 0) (JObj [(ascii ''titre'', JStr (ascii ''MFA''))]) = Some (req_mfa (uid (r 0)))"
    by (simp add: reqOf_def getField_def firstTruthy_def req_mfa_def ascii_def)
  have r2: "reqOf (?us 0) (JObj [(ascii ''application'', JNum 5)]) = Some (req_five (uid (r 0)))"
    by (simp add: reqOf_def getField_def firstTruthy_def req_five_def ascii_def)
  have rn: "reqOf (?us (Suc 0)) JNull = None"
    by (simp add: reqOf_def)
  have g: "gap data_example = []"
    by (simp add: data_example_def)
  have one: "gapImportFile pg ?us (Parsed (JArr [JObj [(ascii ''titre'', JStr (ascii ''MFA''))], JNull]))
       (Some (saveAnalyses data_example))
     = Failed (Some \<lparr> current = data_example\<lparr> gap := [req_mfa (uid (r 0))] \<rparr>,
                        saved = data_example \<rparr>)"
    using r1 rn by (simp add: gapImportFile_def g saveAnalyses_def Let_def)
  have p: "gap_page ''gap-body''" "gap_page ''gap-overview-chart''"
    by (simp_all add: gap_page_def)
  have i: "\<not> missingId (g_id (req_five (uid (r 0))))"
    by (simp add: req_five_def missingId_def uid_def ascii_def)
  have a: "application (req_five (uid (r 0))) = JNum 5"
    by (simp add: req_five_def)
  have two: "gapImportFile gap_page ?us (Parsed (JArr [JObj [(ascii ''application'', JNum 5)]]))
       (Some (saveAnalyses data_example))
     = Failed (Some \<lparr> current = data_example\<lparr> gap := [req_five (uid (r 0))] \<rparr>,
                        saved = data_example\<lparr> gap := [req_five (uid (r 0))] \<rparr> \<rparr>)"
    using r2 i a
    by (simp add: gapImportFile_def g saveAnalyses_def Let_def renderGapTable_def
        updateGapChartThrows_def p orEmpty_def)
  show ?thesis using one g two by simp
qed

text \<open>
  The import of analyses has the same shape.  The document \<open>[null]\<close> replaces the list of
  analyses and is saved; then \<open>renderAnalysisList\<close> throws, on any page, and the \<open>catch\<close>
  shows ``Fichier JSON invalide'': every analysis of the store is gone, in memory and in
  \<open>localStorage\<close>, under an alert that says the file was refused.
\<close>

lemma import_null_replaces_store:
  "importBegin (Parsed (JArr [JNull])) store_example
     = Some \<lparr> analyses = [JNull], currentIndex = 0, stored = [JNull] \<rparr>
   \<and> renderAnalysisListThrows pg [JNull]"
  by (simp add: importBegin_def saveStore_def store_example_def renderAnalysisListThrows_def
      Let_def)


text \<open>
  Ids are generated lazily, by the tables that are drawn: an item that has an id keeps
  it, an item that has none receives the fresh one.
\<close>

lemma ids_generated_only_when_missing:
  "srov_id (normSrov u s) = (if missingId (srov_id s) then Some u else srov_id s)
   \<and> ppc_id (normPPC u q) = (if missingId (ppc_id q) then Some u else ppc_id q)"
  by (simp add: normSrov_def normPPC_def)

end
